theory Spec2Isabelle
  imports Main
begin

section \<open>Data model (src/app.py, src/database-server/seed_table.py)\<close>

text \<open>
  The six tables of the store, one record per row class of \<^verbatim>\<open>app.py\<close>.
  Field names are the source's, prefixed by the table (\<^verbatim>\<open>Invoice.po_id\<close> is
  \<open>inv_po_id\<close>), since the same column names occur in several tables.
  Python integers are \<open>int\<close>; a nullable column is an \<open>option\<close>.
  The column \<^verbatim>\<open>created_at\<close> is filled by the store's clock and read by no
  operation; it is left out of the rows.
\<close>

datatype date = Date (year: nat) (month: nat) (day: nat)

record Department =
  dept_id :: int
  dept_name :: string
  dept_cost_center :: string

record Employee =
  emp_id :: int
  emp_department_id :: int
  emp_full_name :: string
  emp_email :: string
  emp_role :: string
  emp_salary_cents :: int
  emp_hired_on :: date
  emp_active :: bool

record Supplier =
  sup_id :: int
  sup_name :: string
  sup_tax_id :: string
  sup_email :: "string option"
  sup_phone :: "string option"

record PurchaseOrder =
  po_id :: int
  po_supplier_id :: int
  po_requested_by :: int
  po_department_id :: int
  po_status :: string
  po_total_cents :: int

record Invoice =
  inv_id :: int
  inv_supplier_id :: int
  inv_po_id :: "int option"
  inv_invoice_no :: string
  inv_issued_on :: date
  inv_due_on :: date
  inv_amount_cents :: int
  inv_status :: string

record Payment =
  pay_id :: int
  pay_invoice_id :: int
  pay_paid_on :: date
  pay_amount_cents :: int
  pay_method :: string
  pay_reference :: "string option"

text \<open>The request bodies (the Pydantic classes \<^verbatim>\<open>*Create\<close>).\<close>

record DepartmentCreate =
  new_dept_name :: string
  new_dept_cost_center :: string

record EmployeeCreate =
  new_emp_department_id :: int
  new_emp_full_name :: string
  new_emp_email :: string
  new_emp_role :: string
  new_emp_salary_cents :: int
  new_emp_hired_on :: date
  new_emp_active :: bool

record SupplierCreate =
  new_sup_name :: string
  new_sup_tax_id :: string
  new_sup_email :: "string option"
  new_sup_phone :: "string option"

record POCreate =
  new_po_supplier_id :: int
  new_po_requested_by :: int
  new_po_department_id :: int
  new_po_status :: string
  new_po_total_cents :: int

record InvoiceCreate =
  new_inv_supplier_id :: int
  new_inv_po_id :: "int option"
  new_inv_invoice_no :: string
  new_inv_issued_on :: date
  new_inv_due_on :: date
  new_inv_amount_cents :: int
  new_inv_status :: string

record PaymentCreate =
  new_pay_invoice_id :: int
  new_pay_paid_on :: date
  new_pay_amount_cents :: int
  new_pay_method :: string
  new_pay_reference :: "string option"

text \<open>
  The store: the rows of each table and, for each \<^verbatim>\<open>SERIAL\<close> primary key, the next
  value of its sequence. A sequence value drawn by an \<^verbatim>\<open>INSERT\<close> is not given
  back when the transaction is rolled back, so an insert that a constraint refuses
  advances the sequence and leaves every table as it was. An insert with an integer
  outside its column's range is refused before a value is drawn.
\<close>

record db =
  departments :: "Department list"
  employees :: "Employee list"
  suppliers :: "Supplier list"
  purchase_orders :: "PurchaseOrder list"
  invoices :: "Invoice list"
  payments :: "Payment list"
  departments_id_seq :: int
  employees_id_seq :: int
  suppliers_id_seq :: int
  purchase_orders_id_seq :: int
  invoices_id_seq :: int
  payments_id_seq :: int

definition empty_db :: db where
  "empty_db = \<lparr>departments = [], employees = [], suppliers = [], purchase_orders = [],
     invoices = [], payments = [],
     departments_id_seq = 1, employees_id_seq = 1, suppliers_id_seq = 1,
     purchase_orders_id_seq = 1, invoices_id_seq = 1, payments_id_seq = 1\<rparr>"

text \<open>The rows of all six tables: the stored data, without the sequences.\<close>

definition tables ::
  "db \<Rightarrow> Department list \<times> Employee list \<times> Supplier list \<times> PurchaseOrder list \<times>
     Invoice list \<times> Payment list" where
  "tables s = (departments s, employees s, suppliers s, purchase_orders s, invoices s, payments s)"

text \<open>
  What a handler can end with other than its result. \<open>HTTPException\<close> is the
  exception the handlers raise themselves, with its status code and its message:
  \<^item> \<open>Departamento_ja_existe\<close>: "Departamento ja existe ou dados invalidos."
  \<^item> \<open>Departamento_nao_encontrado\<close>: "Departamento nao encontrado."
  \<^item> \<open>department_id_invalido\<close>: "department_id invalido."
  \<^item> \<open>Email_ja_existe\<close>: "Email ja existe ou dados invalidos."
  \<^item> \<open>Funcionario_nao_encontrado\<close>: "Funcionario nao encontrado."
  \<^item> \<open>Fornecedor_ja_existe\<close>: "Fornecedor ja existe (tax_id) ou dados invalidos."
  \<^item> \<open>Fornecedor_nao_encontrado\<close>: "Fornecedor nao encontrado."
  \<^item> \<open>supplier_id_invalido\<close>: "supplier_id invalido."
  \<^item> \<open>requested_by_invalido\<close>: "requested_by invalido."
  \<^item> \<open>PO_nao_encontrado\<close>: "PO nao encontrado."
  \<^item> \<open>po_id_invalido\<close>: "po_id invalido."
  \<^item> \<open>invoice_no_duplicada\<close>: "invoice_no duplicada para esse fornecedor ou dados invalidos."
  \<^item> \<open>Fatura_nao_encontrada\<close>: "Fatura nao encontrada."
  \<^item> \<open>invoice_id_invalido\<close>: "invoice_id invalido."
  \<^item> \<open>Pagamento_nao_encontrado\<close>: "Pagamento nao encontrado."

  (the messages are Portuguese; their accents are dropped here).
  \<open>RequestValidationError\<close> is the framework's rejection (status 422) of a query
  parameter outside the bounds its \<^verbatim>\<open>Query(...)\<close> declares.
  \<open>DBAPIError\<close> is the store's exception (an integrity or data error raised by
  \<^verbatim>\<open>db.commit()\<close>) where the handler does not catch it: it leaves the handler as
  it is, the session is closed without a commit, and the framework answers with its
  generic status 500.
  \<open>DetachedInstanceError\<close> is the exception of the object mapper when the framework
  builds the response from a returned row whose attributes the last
  \<^verbatim>\<open>db.commit()\<close> has expired (the session keeps \<^verbatim>\<open>expire_on_commit\<close>) and
  that was not refreshed before the session closed: the handler has ended and all its
  commits stand, and the framework answers with its generic status 500.
\<close>

datatype detail =
    Departamento_ja_existe
  | Departamento_nao_encontrado
  | department_id_invalido
  | Email_ja_existe
  | Funcionario_nao_encontrado
  | Fornecedor_ja_existe
  | Fornecedor_nao_encontrado
  | supplier_id_invalido
  | requested_by_invalido
  | PO_nao_encontrado
  | po_id_invalido
  | invoice_no_duplicada
  | Fatura_nao_encontrada
  | invoice_id_invalido
  | Pagamento_nao_encontrado

datatype error =
    HTTPException int detail
  | RequestValidationError
  | DBAPIError
  | DetachedInstanceError

text \<open>A column of type \<^verbatim>\<open>INT\<close> holds 32-bit signed values; a larger one is refused.\<close>

definition int4 :: "int \<Rightarrow> bool" where
  "int4 v = (- 2147483648 \<le> v \<and> v \<le> 2147483647)"

text \<open>\<^verbatim>\<open>db.get(Class, key)\<close>: the row with that primary key, or nothing.\<close>

definition get_row :: "('r \<Rightarrow> int) \<Rightarrow> 'r list \<Rightarrow> int \<Rightarrow> 'r option" where
  "get_row key rows k = find (\<lambda>r. key r = k) rows"


section \<open>The operations of the API (src/app.py)\<close>

text \<open>
  Each handler opens a session, works on the store and ends with its result or with an
  exception; here it takes the store and returns the result or the error together with
  the store it leaves. \<^verbatim>\<open>db.commit()\<close> sends the pending \<^verbatim>\<open>INSERT\<close> or
  \<^verbatim>\<open>DELETE\<close>; the store refuses it when a declared constraint (primary key,
  \<^verbatim>\<open>UNIQUE\<close>, \<^verbatim>\<open>CHECK\<close>, foreign key, column type) would be violated, and
  then no row is written. A handler that returns a row returns one it has refreshed
  after its last commit, but for \<^verbatim>\<open>create_payment\<close> on its settling branch (below).
  The \<open>*_constraints\<close> predicates are those declarations, read
  off the table definitions of \<^verbatim>\<open>seed_table.py\<close> and the classes of
  \<^verbatim>\<open>app.py\<close>. The sequences are unbounded here.

  A handler is called with a body the framework has validated against the field
  constraints of its \<^verbatim>\<open>*Create\<close> class (signs, lengths, patterns). The handlers
  here take any body; where the store declares the same constraint, a body that breaks
  it is refused by the store.
\<close>

subsection \<open>Departments\<close>

definition department_constraints :: "db \<Rightarrow> Department \<Rightarrow> bool" where
  "department_constraints s r =
     (dept_id r \<notin> set (map dept_id (departments s)) \<and>
      dept_name r \<notin> set (map dept_name (departments s)) \<and>
      dept_cost_center r \<notin> set (map dept_cost_center (departments s)))"

definition create_department :: "db \<Rightarrow> DepartmentCreate \<Rightarrow> (error + Department) \<times> db" where
  "create_department s payload =
     (let obj = \<lparr>dept_id = departments_id_seq s, dept_name = new_dept_name payload,
                 dept_cost_center = new_dept_cost_center payload\<rparr>;
          s1 = s\<lparr>departments_id_seq := departments_id_seq s + 1\<rparr>
      in if department_constraints s obj
         then (Inr obj, s1\<lparr>departments := departments s @ [obj]\<rparr>)
         else (Inl (HTTPException 400 Departamento_ja_existe), s1))"

definition get_department :: "db \<Rightarrow> int \<Rightarrow> error + Department" where
  "get_department s k =
     (case get_row dept_id (departments s) k of
        None \<Rightarrow> Inl (HTTPException 404 Departamento_nao_encontrado)
      | Some obj \<Rightarrow> Inr obj)"

text \<open>
  Rows that point to a department: employees (\<^verbatim>\<open>ON DELETE RESTRICT\<close>, and the ORM's
  \<^verbatim>\<open>employees\<close> relationship, which would set the \<^verbatim>\<open>NOT NULL\<close> column of
  each to null) and purchase orders (\<^verbatim>\<open>ON DELETE RESTRICT\<close>). Either makes the
  commit of the delete fail.
\<close>

definition department_in_use :: "db \<Rightarrow> int \<Rightarrow> bool" where
  "department_in_use s k =
     ((\<exists>e \<in> set (employees s). emp_department_id e = k) \<or>
      (\<exists>p \<in> set (purchase_orders s). po_department_id p = k))"

definition delete_department :: "db \<Rightarrow> int \<Rightarrow> (error + unit) \<times> db" where
  "delete_department s k =
     (case get_row dept_id (departments s) k of
        None \<Rightarrow> (Inl (HTTPException 404 Departamento_nao_encontrado), s)
      | Some obj \<Rightarrow>
          if department_in_use s (dept_id obj) then (Inl DBAPIError, s)
          else (Inr (), s\<lparr>departments := filter (\<lambda>r. dept_id r \<noteq> dept_id obj) (departments s)\<rparr>))"

subsection \<open>Employees\<close>

definition employee_constraints :: "db \<Rightarrow> Employee \<Rightarrow> bool" where
  "employee_constraints s r =
     (emp_id r \<notin> set (map emp_id (employees s)) \<and>
      emp_department_id r \<in> set (map dept_id (departments s)) \<and>
      emp_email r \<notin> set (map emp_email (employees s)) \<and>
      0 \<le> emp_salary_cents r)"

definition create_employee :: "db \<Rightarrow> EmployeeCreate \<Rightarrow> (error + Employee) \<times> db" where
  "create_employee s payload =
     (case get_row dept_id (departments s) (new_emp_department_id payload) of
        None \<Rightarrow> (Inl (HTTPException 400 department_id_invalido), s)
      | Some _ \<Rightarrow>
          let obj = \<lparr>emp_id = employees_id_seq s,
                     emp_department_id = new_emp_department_id payload,
                     emp_full_name = new_emp_full_name payload,
                     emp_email = new_emp_email payload,
                     emp_role = new_emp_role payload,
                     emp_salary_cents = new_emp_salary_cents payload,
                     emp_hired_on = new_emp_hired_on payload,
                     emp_active = new_emp_active payload\<rparr>;
              s1 = s\<lparr>employees_id_seq := employees_id_seq s + 1\<rparr>
          in if \<not> int4 (emp_salary_cents obj) then (Inl (HTTPException 400 Email_ja_existe), s)
             else if employee_constraints s obj
             then (Inr obj, s1\<lparr>employees := employees s @ [obj]\<rparr>)
             else (Inl (HTTPException 400 Email_ja_existe), s1))"

definition get_employee :: "db \<Rightarrow> int \<Rightarrow> error + Employee" where
  "get_employee s k =
     (case get_row emp_id (employees s) k of
        None \<Rightarrow> Inl (HTTPException 404 Funcionario_nao_encontrado)
      | Some obj \<Rightarrow> Inr obj)"

definition employee_in_use :: "db \<Rightarrow> int \<Rightarrow> bool" where
  "employee_in_use s k = (\<exists>p \<in> set (purchase_orders s). po_requested_by p = k)"

definition delete_employee :: "db \<Rightarrow> int \<Rightarrow> (error + unit) \<times> db" where
  "delete_employee s k =
     (case get_row emp_id (employees s) k of
        None \<Rightarrow> (Inl (HTTPException 404 Funcionario_nao_encontrado), s)
      | Some obj \<Rightarrow>
          if employee_in_use s (emp_id obj) then (Inl DBAPIError, s)
          else (Inr (), s\<lparr>employees := filter (\<lambda>r. emp_id r \<noteq> emp_id obj) (employees s)\<rparr>))"

subsection \<open>Suppliers\<close>

definition supplier_constraints :: "db \<Rightarrow> Supplier \<Rightarrow> bool" where
  "supplier_constraints s r =
     (sup_id r \<notin> set (map sup_id (suppliers s)) \<and>
      sup_name r \<notin> set (map sup_name (suppliers s)) \<and>
      sup_tax_id r \<notin> set (map sup_tax_id (suppliers s)))"

definition create_supplier :: "db \<Rightarrow> SupplierCreate \<Rightarrow> (error + Supplier) \<times> db" where
  "create_supplier s payload =
     (let obj = \<lparr>sup_id = suppliers_id_seq s, sup_name = new_sup_name payload,
                 sup_tax_id = new_sup_tax_id payload, sup_email = new_sup_email payload,
                 sup_phone = new_sup_phone payload\<rparr>;
          s1 = s\<lparr>suppliers_id_seq := suppliers_id_seq s + 1\<rparr>
      in if supplier_constraints s obj
         then (Inr obj, s1\<lparr>suppliers := suppliers s @ [obj]\<rparr>)
         else (Inl (HTTPException 400 Fornecedor_ja_existe), s1))"

definition get_supplier :: "db \<Rightarrow> int \<Rightarrow> error + Supplier" where
  "get_supplier s k =
     (case get_row sup_id (suppliers s) k of
        None \<Rightarrow> Inl (HTTPException 404 Fornecedor_nao_encontrado)
      | Some obj \<Rightarrow> Inr obj)"

definition supplier_in_use :: "db \<Rightarrow> int \<Rightarrow> bool" where
  "supplier_in_use s k =
     ((\<exists>p \<in> set (purchase_orders s). po_supplier_id p = k) \<or>
      (\<exists>i \<in> set (invoices s). inv_supplier_id i = k))"

definition delete_supplier :: "db \<Rightarrow> int \<Rightarrow> (error + unit) \<times> db" where
  "delete_supplier s k =
     (case get_row sup_id (suppliers s) k of
        None \<Rightarrow> (Inl (HTTPException 404 Fornecedor_nao_encontrado), s)
      | Some obj \<Rightarrow>
          if supplier_in_use s (sup_id obj) then (Inl DBAPIError, s)
          else (Inr (), s\<lparr>suppliers := filter (\<lambda>r. sup_id r \<noteq> sup_id obj) (suppliers s)\<rparr>))"

subsection \<open>Purchase orders\<close>

definition purchase_order_constraints :: "db \<Rightarrow> PurchaseOrder \<Rightarrow> bool" where
  "purchase_order_constraints s r =
     (po_id r \<notin> set (map po_id (purchase_orders s)) \<and>
      po_supplier_id r \<in> set (map sup_id (suppliers s)) \<and>
      po_requested_by r \<in> set (map emp_id (employees s)) \<and>
      po_department_id r \<in> set (map dept_id (departments s)) \<and>
      po_status r \<in> set [''DRAFT'', ''APPROVED'', ''SENT'', ''RECEIVED'', ''CANCELLED''] \<and>
      0 \<le> po_total_cents r)"

text \<open>\<^verbatim>\<open>create_po\<close> commits outside any \<^verbatim>\<open>try\<close>: a refused insert is not caught.\<close>

definition create_po :: "db \<Rightarrow> POCreate \<Rightarrow> (error + PurchaseOrder) \<times> db" where
  "create_po s payload =
     (if get_row sup_id (suppliers s) (new_po_supplier_id payload) = None
      then (Inl (HTTPException 400 supplier_id_invalido), s)
      else if get_row emp_id (employees s) (new_po_requested_by payload) = None
      then (Inl (HTTPException 400 requested_by_invalido), s)
      else if get_row dept_id (departments s) (new_po_department_id payload) = None
      then (Inl (HTTPException 400 department_id_invalido), s)
      else
        let obj = \<lparr>po_id = purchase_orders_id_seq s,
                   po_supplier_id = new_po_supplier_id payload,
                   po_requested_by = new_po_requested_by payload,
                   po_department_id = new_po_department_id payload,
                   po_status = new_po_status payload,
                   po_total_cents = new_po_total_cents payload\<rparr>;
            s1 = s\<lparr>purchase_orders_id_seq := purchase_orders_id_seq s + 1\<rparr>
        in if \<not> int4 (po_total_cents obj) then (Inl DBAPIError, s)
           else if purchase_order_constraints s obj
           then (Inr obj, s1\<lparr>purchase_orders := purchase_orders s @ [obj]\<rparr>)
           else (Inl DBAPIError, s1))"

definition get_po :: "db \<Rightarrow> int \<Rightarrow> error + PurchaseOrder" where
  "get_po s k =
     (case get_row po_id (purchase_orders s) k of
        None \<Rightarrow> Inl (HTTPException 404 PO_nao_encontrado)
      | Some obj \<Rightarrow> Inr obj)"

text \<open>
  Only invoices point to a purchase order, with \<^verbatim>\<open>ON DELETE SET NULL\<close>: the store
  clears \<^verbatim>\<open>po_id\<close> in each of them when the order is deleted.
\<close>

definition delete_po :: "db \<Rightarrow> int \<Rightarrow> (error + unit) \<times> db" where
  "delete_po s k =
     (case get_row po_id (purchase_orders s) k of
        None \<Rightarrow> (Inl (HTTPException 404 PO_nao_encontrado), s)
      | Some obj \<Rightarrow>
          (Inr (),
           s\<lparr>purchase_orders := filter (\<lambda>r. po_id r \<noteq> po_id obj) (purchase_orders s),
             invoices := map (\<lambda>i. if inv_po_id i = Some (po_id obj) then i\<lparr>inv_po_id := None\<rparr> else i)
                           (invoices s)\<rparr>))"

subsection \<open>Invoices\<close>

definition invoice_constraints :: "db \<Rightarrow> Invoice \<Rightarrow> bool" where
  "invoice_constraints s r =
     (inv_id r \<notin> set (map inv_id (invoices s)) \<and>
      inv_supplier_id r \<in> set (map sup_id (suppliers s)) \<and>
      (case inv_po_id r of None \<Rightarrow> True | Some p \<Rightarrow> p \<in> set (map po_id (purchase_orders s))) \<and>
      (inv_supplier_id r, inv_invoice_no r)
         \<notin> set (map (\<lambda>i. (inv_supplier_id i, inv_invoice_no i)) (invoices s)) \<and>
      inv_status r \<in> set [''OPEN'', ''PAID'', ''CANCELLED'', ''OVERDUE''] \<and>
      0 \<le> inv_amount_cents r)"

definition create_invoice :: "db \<Rightarrow> InvoiceCreate \<Rightarrow> (error + Invoice) \<times> db" where
  "create_invoice s payload =
     (if get_row sup_id (suppliers s) (new_inv_supplier_id payload) = None
      then (Inl (HTTPException 400 supplier_id_invalido), s)
      else if (case new_inv_po_id payload of
                 None \<Rightarrow> False
               | Some p \<Rightarrow> get_row po_id (purchase_orders s) p = None)
      then (Inl (HTTPException 400 po_id_invalido), s)
      else
        let obj = \<lparr>inv_id = invoices_id_seq s,
                   inv_supplier_id = new_inv_supplier_id payload,
                   inv_po_id = new_inv_po_id payload,
                   inv_invoice_no = new_inv_invoice_no payload,
                   inv_issued_on = new_inv_issued_on payload,
                   inv_due_on = new_inv_due_on payload,
                   inv_amount_cents = new_inv_amount_cents payload,
                   inv_status = new_inv_status payload\<rparr>;
            s1 = s\<lparr>invoices_id_seq := invoices_id_seq s + 1\<rparr>
        in if \<not> int4 (inv_amount_cents obj) then (Inl (HTTPException 400 invoice_no_duplicada), s)
           else if invoice_constraints s obj
           then (Inr obj, s1\<lparr>invoices := invoices s @ [obj]\<rparr>)
           else (Inl (HTTPException 400 invoice_no_duplicada), s1))"

definition get_invoice :: "db \<Rightarrow> int \<Rightarrow> error + Invoice" where
  "get_invoice s k =
     (case get_row inv_id (invoices s) k of
        None \<Rightarrow> Inl (HTTPException 404 Fatura_nao_encontrada)
      | Some obj \<Rightarrow> Inr obj)"

text \<open>Payments point to their invoice with \<^verbatim>\<open>ON DELETE CASCADE\<close>.\<close>

definition delete_invoice :: "db \<Rightarrow> int \<Rightarrow> (error + unit) \<times> db" where
  "delete_invoice s k =
     (case get_row inv_id (invoices s) k of
        None \<Rightarrow> (Inl (HTTPException 404 Fatura_nao_encontrada), s)
      | Some obj \<Rightarrow>
          (Inr (),
           s\<lparr>invoices := filter (\<lambda>r. inv_id r \<noteq> inv_id obj) (invoices s),
             payments := filter (\<lambda>p. pay_invoice_id p \<noteq> inv_id obj) (payments s)\<rparr>))"

subsection \<open>Payments and the settlement rule\<close>

definition payment_constraints :: "db \<Rightarrow> Payment \<Rightarrow> bool" where
  "payment_constraints s r =
     (pay_id r \<notin> set (map pay_id (payments s)) \<and>
      pay_invoice_id r \<in> set (map inv_id (invoices s)) \<and>
      pay_method r \<in> set [''PIX'', ''TED'', ''BOLETO'', ''CREDIT_CARD'', ''CASH''] \<and>
      0 < pay_amount_cents r)"

text \<open>
  \<^verbatim>\<open>coalesce(sum(Payment.amount_cents), 0)\<close> over the payments of one invoice. The
  sum of an \<^verbatim>\<open>INT\<close> column is a \<^verbatim>\<open>BIGINT\<close>, which no number of 32-bit
  amounts with 32-bit keys can overflow.
\<close>

definition total_paid :: "db \<Rightarrow> int \<Rightarrow> int" where
  "total_paid s k = sum_list (map pay_amount_cents (filter (\<lambda>p. pay_invoice_id p = k) (payments s)))"

text \<open>\<^verbatim>\<open>Payment(**payload.model_dump())\<close>, with the key its sequence gives it.\<close>

definition new_payment :: "db \<Rightarrow> PaymentCreate \<Rightarrow> Payment" where
  "new_payment s payload =
     \<lparr>pay_id = payments_id_seq s,
      pay_invoice_id = new_pay_invoice_id payload,
      pay_paid_on = new_pay_paid_on payload,
      pay_amount_cents = new_pay_amount_cents payload,
      pay_method = new_pay_method payload,
      pay_reference = new_pay_reference payload\<rparr>"

text \<open>
  \<^verbatim>\<open>create_payment\<close> commits the payment outside any \<^verbatim>\<open>try\<close> and refreshes it,
  then reads the total paid on the invoice from the store. When the total is below the
  invoice's amount or the invoice is \<^verbatim>\<open>PAID\<close>, it returns the refreshed payment.
  Otherwise it writes the status \<^verbatim>\<open>PAID\<close> and commits again, which expires the
  payment, and returns it without a refresh: both commits stand, and the response
  cannot be built from the expired row once the session has closed.
\<close>

definition create_payment :: "db \<Rightarrow> PaymentCreate \<Rightarrow> (error + Payment) \<times> db" where
  "create_payment s payload =
     (case get_row inv_id (invoices s) (new_pay_invoice_id payload) of
        None \<Rightarrow> (Inl (HTTPException 400 invoice_id_invalido), s)
      | Some invoice \<Rightarrow>
          let obj = new_payment s payload;
              s1 = s\<lparr>payments_id_seq := payments_id_seq s + 1\<rparr>
          in if \<not> int4 (pay_amount_cents obj) then (Inl DBAPIError, s)
             else if \<not> payment_constraints s obj then (Inl DBAPIError, s1)
             else
               let s2 = s1\<lparr>payments := payments s @ [obj]\<rparr>
               in if inv_amount_cents invoice \<le> total_paid s2 (inv_id invoice) \<and> inv_status invoice \<noteq> ''PAID''
                  then (Inl DetachedInstanceError,
                        s2\<lparr>invoices := map (\<lambda>i. if inv_id i = inv_id invoice then i\<lparr>inv_status := ''PAID''\<rparr> else i)
                                          (invoices s2)\<rparr>)
                  else (Inr obj, s2))"

definition get_payment :: "db \<Rightarrow> int \<Rightarrow> error + Payment" where
  "get_payment s k =
     (case get_row pay_id (payments s) k of
        None \<Rightarrow> Inl (HTTPException 404 Pagamento_nao_encontrado)
      | Some obj \<Rightarrow> Inr obj)"

definition delete_payment :: "db \<Rightarrow> int \<Rightarrow> (error + unit) \<times> db" where
  "delete_payment s k =
     (case get_row pay_id (payments s) k of
        None \<Rightarrow> (Inl (HTTPException 404 Pagamento_nao_encontrado), s)
      | Some obj \<Rightarrow>
          (Inr (), s\<lparr>payments := filter (\<lambda>r. pay_id r \<noteq> pay_id obj) (payments s)\<rparr>))"

subsection \<open>Listing\<close>

text \<open>
  Every list handler declares \<^verbatim>\<open>limit: int = Query(50, ge=1, le=200)\<close> and
  \<^verbatim>\<open>offset: int = Query(0, ge=0)\<close> and ends with
  \<^verbatim>\<open>q.order_by(Class.id).offset(offset).limit(limit).all()\<close>. A parameter the
  request leaves out is \<open>None\<close> and takes its default; one outside its bounds is
  rejected by the framework before the handler runs.
\<close>

definition page :: "('r \<Rightarrow> int) \<Rightarrow> int option \<Rightarrow> int option \<Rightarrow> 'r list \<Rightarrow> error + 'r list" where
  "page key limit offset q =
     (let l = (case limit of None \<Rightarrow> 50 | Some v \<Rightarrow> v);
          off = (case offset of None \<Rightarrow> 0 | Some v \<Rightarrow> v)
      in if 1 \<le> l \<and> l \<le> 200 \<and> 0 \<le> off
         then Inr (take (nat l) (drop (nat off) (sort_key key q)))
         else Inl RequestValidationError)"

definition list_departments :: "db \<Rightarrow> int option \<Rightarrow> int option \<Rightarrow> error + Department list" where
  "list_departments s limit offset = page dept_id limit offset (departments s)"

definition list_employees ::
  "db \<Rightarrow> int option \<Rightarrow> int option \<Rightarrow> int option \<Rightarrow> bool option \<Rightarrow> error + Employee list" where
  "list_employees s limit offset department_id active =
     (let q = employees s;
          q1 = (case department_id of None \<Rightarrow> q
                | Some d \<Rightarrow> filter (\<lambda>e. emp_department_id e = d) q);
          q2 = (case active of None \<Rightarrow> q1
                | Some a \<Rightarrow> filter (\<lambda>e. emp_active e = a) q1)
      in page emp_id limit offset q2)"

definition list_suppliers :: "db \<Rightarrow> int option \<Rightarrow> int option \<Rightarrow> error + Supplier list" where
  "list_suppliers s limit offset = page sup_id limit offset (suppliers s)"

text \<open>\<^verbatim>\<open>if status:\<close> skips the filter for an absent and for an empty status.\<close>

definition list_pos ::
  "db \<Rightarrow> int option \<Rightarrow> int option \<Rightarrow> string option \<Rightarrow> error + PurchaseOrder list" where
  "list_pos s limit offset status =
     (let q = purchase_orders s;
          q1 = (case status of None \<Rightarrow> q
                | Some st \<Rightarrow> if st = [] then q else filter (\<lambda>p. po_status p = st) q)
      in page po_id limit offset q1)"

definition list_invoices ::
  "db \<Rightarrow> int option \<Rightarrow> int option \<Rightarrow> string option \<Rightarrow> int option \<Rightarrow> error + Invoice list" where
  "list_invoices s limit offset status supplier_id =
     (let q = invoices s;
          q1 = (case status of None \<Rightarrow> q
                | Some st \<Rightarrow> if st = [] then q else filter (\<lambda>i. inv_status i = st) q);
          q2 = (case supplier_id of None \<Rightarrow> q1
                | Some k \<Rightarrow> filter (\<lambda>i. inv_supplier_id i = k) q1)
      in page inv_id limit offset q2)"

definition list_payments ::
  "db \<Rightarrow> int option \<Rightarrow> int option \<Rightarrow> int option \<Rightarrow> error + Payment list" where
  "list_payments s limit offset invoice_id =
     (let q = payments s;
          q1 = (case invoice_id of None \<Rightarrow> q
                | Some k \<Rightarrow> filter (\<lambda>p. pay_invoice_id p = k) q)
      in page pay_id limit offset q1)"

subsection \<open>Sequences of operations\<close>

text \<open>
  The operations that write to the store, as requests; the \<^verbatim>\<open>GET\<close> handlers above
  read it and return it as it was. \<open>exec\<close> runs one request and gives the error it
  ended with, if any, and the store it leaves; \<open>run\<close> runs a list of them in order,
  going on after a request that failed, as a server does.
\<close>

datatype op =
    CreateDepartment DepartmentCreate
  | DeleteDepartment int
  | CreateEmployee EmployeeCreate
  | DeleteEmployee int
  | CreateSupplier SupplierCreate
  | DeleteSupplier int
  | CreatePO POCreate
  | DeletePO int
  | CreateInvoice InvoiceCreate
  | DeleteInvoice int
  | CreatePayment PaymentCreate
  | DeletePayment int

definition outcome :: "(error + 'a) \<times> db \<Rightarrow> error option \<times> db" where
  "outcome r = (case fst r of Inl e \<Rightarrow> Some e | Inr _ \<Rightarrow> None, snd r)"

fun exec :: "db \<Rightarrow> op \<Rightarrow> error option \<times> db" where
  "exec s (CreateDepartment p) = outcome (create_department s p)"
| "exec s (DeleteDepartment k) = outcome (delete_department s k)"
| "exec s (CreateEmployee p) = outcome (create_employee s p)"
| "exec s (DeleteEmployee k) = outcome (delete_employee s k)"
| "exec s (CreateSupplier p) = outcome (create_supplier s p)"
| "exec s (DeleteSupplier k) = outcome (delete_supplier s k)"
| "exec s (CreatePO p) = outcome (create_po s p)"
| "exec s (DeletePO k) = outcome (delete_po s k)"
| "exec s (CreateInvoice p) = outcome (create_invoice s p)"
| "exec s (DeleteInvoice k) = outcome (delete_invoice s k)"
| "exec s (CreatePayment p) = outcome (create_payment s p)"
| "exec s (DeletePayment k) = outcome (delete_payment s k)"

fun run :: "db \<Rightarrow> op list \<Rightarrow> db" where
  "run s [] = s"
| "run s (x # xs) = run (snd (exec s x)) xs"

section \<open>The tool gateway (src/mcp_server.py)\<close>

text \<open>
  Each tool builds one HTTP request and hands it to \<^verbatim>\<open>api_request\<close>. The request
  is modelled as the value the tool builds: its method, its path, its JSON body and
  its query parameters, both as the key/value pairs of the source's dict, in its order.
  A tool here is prefixed \<open>tool_\<close>, as it has the name of the handler it calls.
\<close>

datatype json = JInt int | JStr string | JBool bool | JNull

record request =
  req_method :: string
  req_path :: string
  req_json :: "(string \<times> json) list"
  req_params :: "(string \<times> int) list"

subsection \<open>Normalising a date string\<close>

text \<open>
  A Python string is a list of characters, a character being a code point below 256.
  \<^verbatim>\<open>str.strip()\<close> removes leading and trailing whitespace: of those code points,
  tab to carriage return, the four separators 28 to 31, the space, NEL and the
  no-break space.
\<close>

definition is_space :: "char \<Rightarrow> bool" where
  "is_space c = ((of_char c :: nat) \<in> set [9, 10, 11, 12, 13, 28, 29, 30, 31, 32, 133, 160])"

definition strip :: "string \<Rightarrow> string" where
  "strip s = rev (dropWhile is_space (rev (dropWhile is_space s)))"

text \<open>\<^verbatim>\<open>s.replace("Z", "+00:00")\<close>.\<close>

definition replace_Z :: "string \<Rightarrow> string" where
  "replace_Z s = concat (map (\<lambda>c. if c = CHR ''Z'' then ''+00:00'' else [c]) s)"

text \<open>
  \<^verbatim>\<open>date.isoformat()\<close> prints year, month and day in four, two and two digits. A
  Python date has a year from 1 to 9999, so four digits are all of it.
\<close>

definition digit :: "nat \<Rightarrow> char" where
  "digit n = ''0123456789'' ! (n mod 10)"

definition isoformat :: "date \<Rightarrow> string" where
  "isoformat d =
     [digit (year d div 1000), digit (year d div 100), digit (year d div 10), digit (year d)]
     @ ''-'' @ [digit (month d div 10), digit (month d)]
     @ ''-'' @ [digit (day d div 10), digit (day d)]"

text \<open>A \<^verbatim>\<open>datetime\<close>: its date, its time of day and its offset from UTC in minutes.\<close>

datatype datetime =
  Datetime (dt_date: date) (dt_hour: nat) (dt_minute: nat) (dt_second: nat) (dt_utcoffset: "int option")

text \<open>
  \<^verbatim>\<open>_normalize_hired_on\<close>. The two parsers it calls, \<^verbatim>\<open>date.fromisoformat\<close> and
  \<^verbatim>\<open>datetime.fromisoformat\<close>, belong to the Python library and not to this
  repository: they are the parameters \<open>date_parse\<close> and \<open>datetime_parse\<close>, which give
  \<open>None\<close> where the library raises. The tool's argument is declared \<^verbatim>\<open>str\<close>, so the
  first test of the source (not a string) never holds.
\<close>

definition normalize_hired_on ::
  "(string \<Rightarrow> date option) \<Rightarrow> (string \<Rightarrow> datetime option) \<Rightarrow> string \<Rightarrow> string" where
  "normalize_hired_on date_parse datetime_parse val =
     (let s = strip val in
      if s = [] then val
      else if CHR ''T'' \<in> set s then
        (case datetime_parse (replace_Z s) of
           None \<Rightarrow> val
         | Some dt \<Rightarrow> isoformat (dt_date dt))
      else
        (case date_parse s of
           None \<Rightarrow> val
         | Some d \<Rightarrow> isoformat d))"

subsection \<open>An instance of the library's parsers\<close>

text \<open>
  For evaluation at concrete strings: the formats \<^verbatim>\<open>YYYY-MM-DD\<close> and
  \<^verbatim>\<open>YYYY-MM-DD?HH:MM:SS\<close>, the latter with any separator character and an
  optional offset \<^verbatim>\<open>+HH:MM\<close> or \<^verbatim>\<open>-HH:MM\<close>, which every version of the
  library from 3.7 on reads in this way. What else a version reads is outside the
  instance; the theorems below that do not name it hold for every parser.
\<close>

definition number :: "string \<Rightarrow> nat option" where
  "number cs =
     (if cs \<noteq> [] \<and> list_all (\<lambda>c. 48 \<le> (of_char c :: nat) \<and> (of_char c :: nat) \<le> 57) cs
      then Some (foldl (\<lambda>n c. 10 * n + (of_char c - 48)) 0 cs)
      else None)"

definition is_leap :: "nat \<Rightarrow> bool" where
  "is_leap y = (y mod 4 = 0 \<and> (y mod 100 \<noteq> 0 \<or> y mod 400 = 0))"

definition days_in_month :: "nat \<Rightarrow> nat \<Rightarrow> nat" where
  "days_in_month y m =
     (if m = 2 then (if is_leap y then 29 else 28)
      else if m \<in> set [4, 6, 9, 11] then 30 else 31)"

definition date_fromisoformat :: "string \<Rightarrow> date option" where
  "date_fromisoformat s =
     (if length s = 10 \<and> s ! 4 = CHR ''-'' \<and> s ! 7 = CHR ''-'' then
        (case (number (take 4 s), number (take 2 (drop 5 s)), number (take 2 (drop 8 s))) of
           (Some y, Some m, Some d) \<Rightarrow>
             if 1 \<le> y \<and> 1 \<le> m \<and> m \<le> 12 \<and> 1 \<le> d \<and> d \<le> days_in_month y m
             then Some (Date y m d) else None
         | _ \<Rightarrow> None)
      else None)"

definition utcoffset_fromiso :: "string \<Rightarrow> int option option" where
  "utcoffset_fromiso s =
     (if s = [] then Some None
      else if length s = 6 \<and> (s ! 0 = CHR ''+'' \<or> s ! 0 = CHR ''-'') \<and> s ! 3 = CHR '':'' then
        (case (number (take 2 (drop 1 s)), number (take 2 (drop 4 s))) of
           (Some h, Some m) \<Rightarrow>
             if h < 24 \<and> m < 60
             then Some (Some ((if s ! 0 = CHR ''-'' then - 1 else 1) * int (60 * h + m)))
             else None
         | _ \<Rightarrow> None)
      else None)"

definition datetime_fromisoformat :: "string \<Rightarrow> datetime option" where
  "datetime_fromisoformat s =
     (if 19 \<le> length s \<and> s ! 13 = CHR '':'' \<and> s ! 16 = CHR '':'' then
        (case (date_fromisoformat (take 10 s), number (take 2 (drop 11 s)),
               number (take 2 (drop 14 s)), number (take 2 (drop 17 s)),
               utcoffset_fromiso (drop 19 s)) of
           (Some d, Some h, Some m, Some sec, Some off) \<Rightarrow>
             if h < 24 \<and> m < 60 \<and> sec < 60 then Some (Datetime d h m sec off) else None
         | _ \<Rightarrow> None)
      else None)"

subsection \<open>The tools\<close>

definition opt_int :: "int option \<Rightarrow> json" where
  "opt_int v = (case v of None \<Rightarrow> JNull | Some n \<Rightarrow> JInt n)"

definition opt_str :: "string option \<Rightarrow> json" where
  "opt_str v = (case v of None \<Rightarrow> JNull | Some x \<Rightarrow> JStr x)"

text \<open>\<^verbatim>\<open>if department_id:\<close> holds for an integer other than zero.\<close>

definition tool_list_employees :: "int \<Rightarrow> int \<Rightarrow> int option \<Rightarrow> request" where
  "tool_list_employees limit offset department_id =
     (let params = [(''limit'', limit), (''offset'', offset)];
          params1 = (case department_id of
                       None \<Rightarrow> params
                     | Some d \<Rightarrow> if d \<noteq> 0 then params @ [(''department_id'', d)] else params)
      in \<lparr>req_method = ''GET'', req_path = ''/employees'', req_json = [], req_params = params1\<rparr>)"

definition tool_create_employee ::
  "(string \<Rightarrow> date option) \<Rightarrow> (string \<Rightarrow> datetime option) \<Rightarrow>
   int \<Rightarrow> string \<Rightarrow> string \<Rightarrow> string \<Rightarrow> int \<Rightarrow> string \<Rightarrow> bool \<Rightarrow> request" where
  "tool_create_employee date_parse datetime_parse
       department_id full_name email role salary_cents hired_on active =
     \<lparr>req_method = ''POST'', req_path = ''/employees'',
      req_json = [(''department_id'', JInt department_id),
                  (''full_name'', JStr full_name),
                  (''email'', JStr email),
                  (''role'', JStr role),
                  (''salary_cents'', JInt salary_cents),
                  (''hired_on'', JStr (normalize_hired_on date_parse datetime_parse hired_on)),
                  (''active'', JBool active)],
      req_params = []\<rparr>"

definition tool_create_invoice ::
  "int \<Rightarrow> string \<Rightarrow> string \<Rightarrow> string \<Rightarrow> int \<Rightarrow> string \<Rightarrow> int option \<Rightarrow> request" where
  "tool_create_invoice supplier_id invoice_no issued_on due_on amount_cents status po =
     \<lparr>req_method = ''POST'', req_path = ''/invoices'',
      req_json = [(''supplier_id'', JInt supplier_id),
                  (''po_id'', opt_int po),
                  (''invoice_no'', JStr invoice_no),
                  (''issued_on'', JStr issued_on),
                  (''due_on'', JStr due_on),
                  (''amount_cents'', JInt amount_cents),
                  (''status'', JStr status)],
      req_params = []\<rparr>"

definition tool_create_payment ::
  "int \<Rightarrow> string \<Rightarrow> int \<Rightarrow> string \<Rightarrow> string option \<Rightarrow> request" where
  "tool_create_payment invoice_id paid_on amount_cents method reference =
     \<lparr>req_method = ''POST'', req_path = ''/payments'',
      req_json = [(''invoice_id'', JInt invoice_id),
                  (''paid_on'', JStr paid_on),
                  (''amount_cents'', JInt amount_cents),
                  (''method'', JStr method),
                  (''reference'', opt_str reference)],
      req_params = []\<rparr>"

text \<open>
  The route \<^verbatim>\<open>GET /employees\<close> of the API, as the framework calls its handler: each
  declared parameter is taken from the query where it is present. \<open>call_list_employees\<close>
  is what the tool returns for a store: the answer of the route to the tool's request.
\<close>

definition get_employees :: "db \<Rightarrow> (string \<times> int) list \<Rightarrow> bool option \<Rightarrow> error + Employee list" where
  "get_employees s params active =
     list_employees s (map_of params ''limit'') (map_of params ''offset'')
       (map_of params ''department_id'') active"

definition call_list_employees :: "db \<Rightarrow> int \<Rightarrow> int \<Rightarrow> int option \<Rightarrow> error + Employee list" where
  "call_list_employees s limit offset department_id =
     get_employees s (req_params (tool_list_employees limit offset department_id)) None"


section \<open>Invariants of the store\<close>

text \<open>
  What the declared constraints keep true of the rows the theorems below depend on:
  invoice keys are unique (primary key), every payment's key lies below the next value
  of its sequence, and every payment has a positive amount (\<^verbatim>\<open>CHECK\<close>). It
  holds of the empty store and every request keeps it (\<open>store_ok_empty\<close>,
  \<open>store_ok_exec\<close> below).
\<close>

definition store_ok :: "db \<Rightarrow> bool" where
  "store_ok s =
     (distinct (map inv_id (invoices s)) \<and>
      (\<forall>p \<in> set (payments s). pay_id p < payments_id_seq s \<and> 0 < pay_amount_cents p))"

text \<open>
  The constraints \<^verbatim>\<open>PaymentCreate\<close> declares on its fields: \<^verbatim>\<open>Field(gt=0)\<close> on the
  amount and the pattern of the method.
\<close>

definition PaymentCreate_valid :: "PaymentCreate \<Rightarrow> bool" where
  "PaymentCreate_valid p =
     (0 < new_pay_amount_cents p \<and>
      new_pay_method p \<in> set [''PIX'', ''TED'', ''BOLETO'', ''CREDIT_CARD'', ''CASH''])"

text \<open>
  The settlement invariant: an invoice with status \<^verbatim>\<open>PAID\<close> has payments that sum
  to at least its amount.
\<close>

definition paid_invariant :: "db \<Rightarrow> bool" where
  "paid_invariant s =
     (\<forall>i \<in> set (invoices s). inv_status i = ''PAID'' \<longrightarrow> inv_amount_cents i \<le> total_paid s (inv_id i))"

text \<open>
  The requests that cannot break it: all but the deletion of a payment and the creation
  of an invoice whose given status is \<^verbatim>\<open>PAID\<close>.
\<close>

fun keeps_settlement :: "op \<Rightarrow> bool" where
  "keeps_settlement (DeletePayment k) = False"
| "keeps_settlement (CreateInvoice p) = (new_inv_status p \<noteq> ''PAID'')"
| "keeps_settlement _ = True"

text \<open>
  What a page of a listing is held to: the limit (50 when absent) lies between 1 and
  200, the offset (0 when absent) is not negative, the rows are at most the limit and
  their keys ascend.
\<close>

definition bounded_ascending :: "('r \<Rightarrow> int) \<Rightarrow> int option \<Rightarrow> int option \<Rightarrow> 'r list \<Rightarrow> bool" where
  "bounded_ascending key limit offset rows =
     (let l = (case limit of None \<Rightarrow> 50 | Some v \<Rightarrow> v);
          off = (case offset of None \<Rightarrow> 0 | Some v \<Rightarrow> v)
      in 1 \<le> l \<and> l \<le> 200 \<and> 0 \<le> off \<and> int (length rows) \<le> l \<and> sorted (map key rows))"

section \<open>Example stores\<close>

text \<open>Two departments with one employee each, taken from the seed script.\<close>

definition ex_emp_db :: db where
  "ex_emp_db = empty_db\<lparr>
     departments := [\<lparr>dept_id = 1, dept_name = ''RH'', dept_cost_center = ''CC-200''\<rparr>,
                     \<lparr>dept_id = 2, dept_name = ''Compras'', dept_cost_center = ''CC-300''\<rparr>],
     employees := [\<lparr>emp_id = 1, emp_department_id = 1, emp_full_name = ''Bruno Lima'',
                     emp_email = ''bruno.lima@empresa.com'', emp_role = ''Analista de RH'',
                     emp_salary_cents = 480000, emp_hired_on = Date 2022 8 1, emp_active = True\<rparr>,
                   \<lparr>emp_id = 2, emp_department_id = 2, emp_full_name = ''Carla Mendes'',
                     emp_email = ''carla.mendes@empresa.com'', emp_role = ''Comprador'',
                     emp_salary_cents = 520000, emp_hired_on = Date 2021 5 12, emp_active = True\<rparr>],
     departments_id_seq := 3, employees_id_seq := 3\<rparr>"

text \<open>One supplier with one open invoice of 100000 and no payment yet.\<close>

definition ex_inv_db :: db where
  "ex_inv_db = empty_db\<lparr>
     suppliers := [\<lparr>sup_id = 1, sup_name = ''Papelaria Norte'', sup_tax_id = ''12.345.678/0001-00'',
                     sup_email = None, sup_phone = None\<rparr>],
     invoices := [\<lparr>inv_id = 1, inv_supplier_id = 1, inv_po_id = None, inv_invoice_no = ''NF-0001'',
                    inv_issued_on = Date 2026 2 1, inv_due_on = Date 2026 2 20,
                    inv_amount_cents = 100000, inv_status = ''OPEN''\<rparr>],
     suppliers_id_seq := 2, invoices_id_seq := 2\<rparr>"

definition ex_payment :: "int \<Rightarrow> PaymentCreate" where
  "ex_payment amount = \<lparr>new_pay_invoice_id = 1, new_pay_paid_on = Date 2026 2 6,
     new_pay_amount_cents = amount, new_pay_method = ''PIX'', new_pay_reference = None\<rparr>"

text \<open>The requests that build such stores from the empty one.\<close>

definition ex_supplier :: SupplierCreate where
  "ex_supplier = \<lparr>new_sup_name = ''Papelaria Norte'', new_sup_tax_id = ''12.345.678/0001-00'',
     new_sup_email = None, new_sup_phone = None\<rparr>"

definition ex_invoice :: "string \<Rightarrow> InvoiceCreate" where
  "ex_invoice status = \<lparr>new_inv_supplier_id = 1, new_inv_po_id = None, new_inv_invoice_no = ''NF-0001'',
     new_inv_issued_on = Date 2026 2 1, new_inv_due_on = Date 2026 2 20,
     new_inv_amount_cents = 100000, new_inv_status = status\<rparr>"

text \<open>
  The invoice of 100000 paid in full by one payment, and the same invoice created with
  status \<^verbatim>\<open>CANCELLED\<close>.
\<close>

definition ex_paid_db :: db where
  "ex_paid_db = run empty_db [CreateSupplier ex_supplier, CreateInvoice (ex_invoice ''OPEN''),
     CreatePayment (ex_payment 100000)]"

definition ex_cancelled_db :: db where
  "ex_cancelled_db = run empty_db [CreateSupplier ex_supplier, CreateInvoice (ex_invoice ''CANCELLED'')]"

text \<open>
  The store of the seed script short of its payment: the two departments and employees,
  a supplier, a purchase order requested by the second employee for her department,
  and an invoice of that supplier on that order.
\<close>

definition ex_po_db :: db where
  "ex_po_db = ex_emp_db\<lparr>
     suppliers := [\<lparr>sup_id = 1, sup_name = ''Papelaria Norte'', sup_tax_id = ''12.345.678/0001-00'',
                     sup_email = None, sup_phone = None\<rparr>],
     purchase_orders := [\<lparr>po_id = 1, po_supplier_id = 1, po_requested_by = 2, po_department_id = 2,
                           po_status = ''APPROVED'', po_total_cents = 125900\<rparr>],
     invoices := [\<lparr>inv_id = 1, inv_supplier_id = 1, inv_po_id = Some 1, inv_invoice_no = ''NF-0001'',
                    inv_issued_on = Date 2026 2 1, inv_due_on = Date 2026 2 20,
                    inv_amount_cents = 125900, inv_status = ''OPEN''\<rparr>],
     suppliers_id_seq := 2, purchase_orders_id_seq := 2, invoices_id_seq := 2\<rparr>"

definition ex_po :: "int \<Rightarrow> POCreate" where
  "ex_po supplier = \<lparr>new_po_supplier_id = supplier, new_po_requested_by = 2, new_po_department_id = 2,
     new_po_status = ''DRAFT'', new_po_total_cents = 5000\<rparr>"

definition ex_employee :: EmployeeCreate where
  "ex_employee = \<lparr>new_emp_department_id = 2, new_emp_full_name = ''Bruno L. Lima'',
     new_emp_email = ''bruno.lima@empresa.com'', new_emp_role = ''Comprador'',
     new_emp_salary_cents = 500000, new_emp_hired_on = Date 2024 1 15, new_emp_active = True\<rparr>"


section \<open>Looking rows up\<close>

lemma get_row_Some: "get_row key rows k = Some r \<Longrightarrow> r \<in> set rows \<and> key r = k"
  by (auto simp: get_row_def find_Some_iff)

lemma get_row_None: "get_row key rows k = None \<longleftrightarrow> k \<notin> set (map key rows)"
  by (auto simp: get_row_def find_None_iff)

lemma get_row_append:
  "get_row key (xs @ ys) k = (case get_row key xs k of None \<Rightarrow> get_row key ys k | Some r \<Rightarrow> Some r)"
  by (induction xs) (auto simp: get_row_def)

lemma get_row_map:
  "(\<And>r. key (f r) = key r) \<Longrightarrow> get_row key (map f rows) k = map_option f (get_row key rows k)"
  by (induction rows) (auto simp: get_row_def)

lemma get_row_filter:
  "get_row key (filter (\<lambda>r. key r \<noteq> j) rows) k = (if k = j then None else get_row key rows k)"
  by (induction rows) (auto simp: get_row_def)

section \<open>The store invariant is kept\<close>

lemma map_inv_id_upd:
  "inv_id \<circ> (\<lambda>i. if P i then i\<lparr>inv_status := st\<rparr> else i) = inv_id"
  by (rule ext) simp

lemma map_inv_id_upd_po:
  "inv_id \<circ> (\<lambda>i. if P i then i\<lparr>inv_po_id := v\<rparr> else i) = inv_id"
  by (rule ext) simp

lemma store_ok_create_payment: "store_ok s \<Longrightarrow> store_ok (snd (create_payment s p))"
  by (auto simp: store_ok_def create_payment_def Let_def payment_constraints_def new_payment_def
      map_inv_id_upd split: option.splits)

lemma store_ok_create_invoice: "store_ok s \<Longrightarrow> store_ok (snd (create_invoice s p))"
  by (auto simp: store_ok_def create_invoice_def Let_def invoice_constraints_def split: option.splits)

lemma store_ok_delete_invoice: "store_ok s \<Longrightarrow> store_ok (snd (delete_invoice s k))"
  by (auto simp: store_ok_def delete_invoice_def distinct_map_filter split: option.splits)

lemma store_ok_delete_po: "store_ok s \<Longrightarrow> store_ok (snd (delete_po s k))"
  by (auto simp: store_ok_def delete_po_def map_inv_id_upd_po split: option.splits)

lemma store_ok_delete_payment: "store_ok s \<Longrightarrow> store_ok (snd (delete_payment s k))"
  by (auto simp: store_ok_def delete_payment_def split: option.splits)

lemma store_ok_exec: "store_ok s \<Longrightarrow> store_ok (snd (exec s x))"
proof (cases x)
  case (CreatePayment p) then show "store_ok s \<Longrightarrow> ?thesis"
    using store_ok_create_payment by (simp add: outcome_def)
next
  case (CreateInvoice p) then show "store_ok s \<Longrightarrow> ?thesis"
    using store_ok_create_invoice by (simp add: outcome_def)
next
  case (DeleteInvoice k) then show "store_ok s \<Longrightarrow> ?thesis"
    using store_ok_delete_invoice by (simp add: outcome_def)
next
  case (DeletePO k) then show "store_ok s \<Longrightarrow> ?thesis"
    using store_ok_delete_po by (simp add: outcome_def)
next
  case (DeletePayment k) then show "store_ok s \<Longrightarrow> ?thesis"
    using store_ok_delete_payment by (simp add: outcome_def)
qed (auto simp: outcome_def store_ok_def create_department_def delete_department_def
       create_employee_def delete_employee_def create_supplier_def delete_supplier_def
       create_po_def Let_def split: option.splits)

lemma store_ok_run: "store_ok s \<Longrightarrow> store_ok (run s xs)"
  by (induction xs arbitrary: s) (auto simp: store_ok_exec)

lemma store_ok_empty: "store_ok empty_db"
  by (simp add: store_ok_def empty_db_def)

section \<open>Recording a payment\<close>

lemma total_paid_nonneg:
  "\<forall>p \<in> set (payments s). 0 < pay_amount_cents p \<Longrightarrow> 0 \<le> total_paid s k"
  unfolding total_paid_def by (rule sum_list_nonneg) (auto simp: less_imp_le)

text \<open>
  The two ways \<^verbatim>\<open>create_payment\<close> ends: the payment is refused and no table
  changes, or it is inserted, the invoice is settled if the total allows, and the
  result is the payment on the branch that does not settle and the error of the
  expired row on the branch that does.
\<close>

lemma create_payment_cases [consumes 1, case_names refused inserted]:
  assumes "create_payment s payload = (r, s')"
  obtains e where "r = Inl e" and "e \<noteq> DetachedInstanceError"
      and "s' = s \<or> s' = s\<lparr>payments_id_seq := payments_id_seq s + 1\<rparr>"
  | invoice where "get_row inv_id (invoices s) (new_pay_invoice_id payload) = Some invoice"
      and "int4 (new_pay_amount_cents payload)"
      and "payment_constraints s (new_payment s payload)"
      and "s' = s\<lparr>payments_id_seq := payments_id_seq s + 1,
                   payments := payments s @ [new_payment s payload],
                   invoices := (if inv_amount_cents invoice
                                     \<le> total_paid s (inv_id invoice) + new_pay_amount_cents payload
                                   \<and> inv_status invoice \<noteq> ''PAID''
                                then map (\<lambda>i. if inv_id i = inv_id invoice
                                               then i\<lparr>inv_status := ''PAID''\<rparr> else i) (invoices s)
                                else invoices s)\<rparr>"
      and "r = (if inv_amount_cents invoice
                     \<le> total_paid s (inv_id invoice) + new_pay_amount_cents payload
                   \<and> inv_status invoice \<noteq> ''PAID''
                then Inl DetachedInstanceError else Inr (new_payment s payload))"
proof (cases "get_row inv_id (invoices s) (new_pay_invoice_id payload)")
  case None
  with assms that(1) show ?thesis by (auto simp: create_payment_def)
next
  case (Some invoice)
  have k: "inv_id invoice = new_pay_invoice_id payload"
    using get_row_Some [OF Some] by simp
  show ?thesis
  proof (cases "int4 (new_pay_amount_cents payload) \<and> payment_constraints s (new_payment s payload)")
    case False
    with assms Some that(1) show ?thesis
      by (auto simp: create_payment_def Let_def new_payment_def split: if_splits)
  next
    case True
    with assms Some k that(2) [of invoice] show ?thesis
      by (auto simp: create_payment_def Let_def new_payment_def total_paid_def split: if_splits)
  qed
qed

lemma create_payment_inserted:
  assumes "payments (snd (create_payment s payload)) \<noteq> payments s"
  shows "\<exists>invoice. get_row inv_id (invoices s) (new_pay_invoice_id payload) = Some invoice
     \<and> payments (snd (create_payment s payload)) = payments s @ [new_payment s payload]
     \<and> pay_invoice_id (new_payment s payload) = inv_id invoice
     \<and> pay_amount_cents (new_payment s payload) = new_pay_amount_cents payload
     \<and> total_paid (snd (create_payment s payload)) (inv_id invoice)
         = total_paid s (inv_id invoice) + new_pay_amount_cents payload
     \<and> get_row inv_id (invoices (snd (create_payment s payload))) (inv_id invoice)
         = Some (if inv_amount_cents invoice \<le> total_paid (snd (create_payment s payload)) (inv_id invoice)
                    \<and> inv_status invoice \<noteq> ''PAID''
                 then invoice\<lparr>inv_status := ''PAID''\<rparr> else invoice)
     \<and> fst (create_payment s payload)
         = (if inv_amount_cents invoice \<le> total_paid (snd (create_payment s payload)) (inv_id invoice)
               \<and> inv_status invoice \<noteq> ''PAID''
            then Inl DetachedInstanceError else Inr (new_payment s payload))"
proof -
  obtain r s' where c: "create_payment s payload = (r, s')" by (cases "create_payment s payload")
  from c show ?thesis
  proof (cases rule: create_payment_cases)
    case (refused e)
    with assms c show ?thesis by auto
  next
    case (inserted invoice)
    note g = inserted(1) and s' = inserted(4) and r = inserted(5)
    have k: "inv_id invoice = new_pay_invoice_id payload"
      using get_row_Some [OF g] by simp
    have tp: "total_paid s' (inv_id invoice) = total_paid s (inv_id invoice) + new_pay_amount_cents payload"
      by (simp add: s' new_payment_def total_paid_def k)
    have gm: "get_row inv_id (map (\<lambda>i. if inv_id i = inv_id invoice then i\<lparr>inv_status := ''PAID''\<rparr> else i)
                 (invoices s)) (inv_id invoice) = Some (invoice\<lparr>inv_status := ''PAID''\<rparr>)"
      using g by (subst get_row_map) (auto simp: k)
    have gi: "get_row inv_id (invoices s') (inv_id invoice)
         = Some (if inv_amount_cents invoice \<le> total_paid s' (inv_id invoice) \<and> inv_status invoice \<noteq> ''PAID''
                 then invoice\<lparr>inv_status := ''PAID''\<rparr> else invoice)"
      unfolding tp using gm g by (simp add: s' k)
    have p: "payments s' = payments s @ [new_payment s payload]" by (simp add: s')
    from g p tp gi r c show ?thesis by (simp add: new_payment_def k)
  qed
qed

lemma create_payment_recorded:
  assumes ok: "store_ok s"
    and g: "get_row inv_id (invoices s) (new_pay_invoice_id p) = Some invoice"
    and v: "PaymentCreate_valid p" and r: "int4 (new_pay_amount_cents p)"
  shows "payments (snd (create_payment s p)) = payments s @ [new_payment s p]"
proof -
  have "payments_id_seq s \<notin> set (map pay_id (payments s))"
    using ok by (auto simp: store_ok_def)
  moreover have "new_pay_invoice_id p \<in> set (map inv_id (invoices s))"
    using get_row_Some [OF g] by force
  ultimately show ?thesis
    using g v r
    by (simp add: create_payment_def Let_def payment_constraints_def PaymentCreate_valid_def
        new_payment_def)
qed

text \<open>The definitions to unfold when a handler is run on an example store.\<close>

lemmas ex_defs = ex_inv_db_def ex_payment_def empty_db_def create_payment_def new_payment_def
  payment_constraints_def
  total_paid_def get_row_def store_ok_def PaymentCreate_valid_def int4_def Let_def

lemmas run_defs = outcome_def create_supplier_def supplier_constraints_def create_invoice_def
  invoice_constraints_def delete_payment_def ex_supplier_def ex_invoice_def

lemma ex_inv_db_run: "run empty_db [CreateSupplier ex_supplier, CreateInvoice (ex_invoice ''OPEN'')] = ex_inv_db"
  by (simp add: run_defs ex_defs)

section \<open>The settlement invariant\<close>

lemma distinct_inv_id_eq:
  "distinct (map inv_id xs) \<Longrightarrow> a \<in> set xs \<Longrightarrow> b \<in> set xs \<Longrightarrow> inv_id a = inv_id b \<Longrightarrow> a = b"
  by (meson distinct_map inj_onD)

lemma total_paid_append:
  "total_paid (s\<lparr>payments := payments s @ [obj]\<rparr>) j
     = total_paid s j + (if pay_invoice_id obj = j then pay_amount_cents obj else 0)"
  by (simp add: total_paid_def)

lemma total_paid_cong: "payments s' = payments s \<Longrightarrow> total_paid s' j = total_paid s j"
  by (simp add: total_paid_def)

lemma paid_invariant_create_payment:
  assumes ok: "store_ok s" and pi: "paid_invariant s"
  shows "paid_invariant (snd (create_payment s p))"
proof -
  obtain r s' where c: "create_payment s p = (r, s')" by (cases "create_payment s p")
  from c have "paid_invariant s'"
  proof (cases rule: create_payment_cases)
    case (refused e)
    with pi show ?thesis by (auto simp: paid_invariant_def total_paid_def)
  next
    case (inserted invoice)
    note g = inserted(1) and pc = inserted(3) and s' = inserted(4)
    have mem: "invoice \<in> set (invoices s)" and ik: "inv_id invoice = new_pay_invoice_id p"
      using get_row_Some [OF g] by simp_all
    have dist: "distinct (map inv_id (invoices s))" using ok by (simp add: store_ok_def)
    have pos: "0 < new_pay_amount_cents p"
      using pc by (simp add: payment_constraints_def new_payment_def)
    have tp: "\<And>j. total_paid s' j
        = total_paid s j + (if new_pay_invoice_id p = j then new_pay_amount_cents p else 0)"
      by (simp add: s' total_paid_def new_payment_def)
    show ?thesis
      unfolding paid_invariant_def
    proof (intro ballI impI)
      fix i' assume i': "i' \<in> set (invoices s')" and st: "inv_status i' = ''PAID''"
      show "inv_amount_cents i' \<le> total_paid s' (inv_id i')"
      proof (cases "inv_amount_cents invoice \<le> total_paid s (inv_id invoice) + new_pay_amount_cents p
                      \<and> inv_status invoice \<noteq> ''PAID''")
        case False
        then have "i' \<in> set (invoices s)" using i' by (auto simp: s' split: if_splits)
        with pi st have "inv_amount_cents i' \<le> total_paid s (inv_id i')"
          by (simp add: paid_invariant_def)
        with pos show ?thesis by (simp add: tp)
      next
        case True
        then obtain i where i: "i \<in> set (invoices s)"
          and ii: "i' = (if inv_id i = inv_id invoice then i\<lparr>inv_status := ''PAID''\<rparr> else i)"
          using i' by (auto simp: s')
        show ?thesis
        proof (cases "inv_id i = inv_id invoice")
          case same: True
          then have "i = invoice" using distinct_inv_id_eq [OF dist i mem] by simp
          with True ii show ?thesis by (simp add: tp ik)
        next
          case other: False
          with ii st pi i have "inv_amount_cents i' \<le> total_paid s (inv_id i')"
            by (simp add: paid_invariant_def)
          with pos show ?thesis by (simp add: tp)
        qed
      qed
    qed
  qed
  with c show ?thesis by simp
qed

lemma paid_invariant_delete_invoice:
  "paid_invariant s \<Longrightarrow> paid_invariant (snd (delete_invoice s k))"
proof (cases "get_row inv_id (invoices s) k")
  case None then show "paid_invariant s \<Longrightarrow> ?thesis" by (simp add: delete_invoice_def)
next
  case (Some obj)
  have f: "\<And>j. j \<noteq> inv_id obj \<Longrightarrow>
     filter (\<lambda>p. pay_invoice_id p \<noteq> inv_id obj \<and> pay_invoice_id p = j) (payments s)
       = filter (\<lambda>p. pay_invoice_id p = j) (payments s)"
    by (auto intro: filter_cong)
  assume "paid_invariant s"
  with Some show ?thesis
    by (auto simp: delete_invoice_def paid_invariant_def total_paid_def f)
qed

lemma paid_invariant_create_invoice:
  "new_inv_status p \<noteq> ''PAID'' \<Longrightarrow> paid_invariant s \<Longrightarrow> paid_invariant (snd (create_invoice s p))"
  by (auto simp: create_invoice_def paid_invariant_def total_paid_def Let_def)

lemma paid_invariant_delete_po:
  "paid_invariant s \<Longrightarrow> paid_invariant (snd (delete_po s k))"
  by (auto simp: delete_po_def paid_invariant_def total_paid_def split: option.splits)

lemma paid_invariant_exec:
  assumes "store_ok s" "paid_invariant s" "keeps_settlement x"
  shows "paid_invariant (snd (exec s x))"
proof (cases x)
  case (CreatePayment p) with assms show ?thesis
    using paid_invariant_create_payment by (simp add: outcome_def)
next
  case (CreateInvoice p) with assms show ?thesis
    using paid_invariant_create_invoice by (simp add: outcome_def)
next
  case (DeleteInvoice k) with assms show ?thesis
    using paid_invariant_delete_invoice by (simp add: outcome_def)
next
  case (DeletePO k) with assms show ?thesis
    using paid_invariant_delete_po by (simp add: outcome_def)
next
  case (DeletePayment k) with assms show ?thesis by simp
qed (use assms in \<open>auto simp: outcome_def paid_invariant_def total_paid_def create_department_def delete_department_def
       create_employee_def delete_employee_def create_supplier_def delete_supplier_def
       create_po_def Let_def split: option.splits\<close>)

section \<open>The status of an invoice across a request\<close>

lemma get_row_upd_status:
  "get_row inv_id (map (\<lambda>i. if P i then i\<lparr>inv_status := st\<rparr> else i) xs) k
     = map_option (\<lambda>i. if P i then i\<lparr>inv_status := st\<rparr> else i) (get_row inv_id xs k)"
  by (rule get_row_map) simp

lemma get_row_upd_po:
  "get_row inv_id (map (\<lambda>i. if P i then i\<lparr>inv_po_id := v\<rparr> else i) xs) k
     = map_option (\<lambda>i. if P i then i\<lparr>inv_po_id := v\<rparr> else i) (get_row inv_id xs k)"
  by (rule get_row_map) simp

lemma create_payment_invoice:
  assumes "get_row inv_id (invoices (snd (create_payment s p))) k = Some j"
  shows "\<exists>i. get_row inv_id (invoices s) k = Some i
           \<and> (j = i \<or> (inv_status i \<noteq> ''PAID'' \<and> j = i\<lparr>inv_status := ''PAID''\<rparr>))"
proof -
  obtain r s' where c: "create_payment s p = (r, s')" by (cases "create_payment s p")
  from c consider
      "invoices s' = invoices s"
    | invoice where "get_row inv_id (invoices s) (new_pay_invoice_id p) = Some invoice"
        "inv_status invoice \<noteq> ''PAID''"
        "invoices s' = map (\<lambda>i. if inv_id i = inv_id invoice then i\<lparr>inv_status := ''PAID''\<rparr> else i) (invoices s)"
  proof (cases rule: create_payment_cases)
    case (refused e)
    then have "invoices s' = invoices s" by auto
    then show ?thesis by (rule that(1))
  next
    case (inserted invoice)
    show ?thesis
    proof (cases "inv_amount_cents invoice \<le> total_paid s (inv_id invoice) + new_pay_amount_cents p
                    \<and> inv_status invoice \<noteq> ''PAID''")
      case True
      with inserted(4) have "invoices s'
          = map (\<lambda>i. if inv_id i = inv_id invoice then i\<lparr>inv_status := ''PAID''\<rparr> else i) (invoices s)"
        by simp
      with inserted(1) True show ?thesis by (intro that(2) [of invoice]) simp_all
    next
      case False
      with inserted(4) have "invoices s' = invoices s" by auto
      then show ?thesis by (rule that(1))
    qed
  qed
  then show ?thesis
  proof cases
    case 1 with assms c show ?thesis by simp
  next
    case (2 invoice)
    from assms c 2(3) obtain i where i: "get_row inv_id (invoices s) k = Some i"
      and j: "j = (if inv_id i = inv_id invoice then i\<lparr>inv_status := ''PAID''\<rparr> else i)"
      by (auto simp: get_row_upd_status)
    show ?thesis
    proof (cases "inv_id i = inv_id invoice")
      case True
      then have "k = new_pay_invoice_id p"
        using get_row_Some [OF i] get_row_Some [OF 2(1)] by simp
      with i 2(1) have "i = invoice" by simp
      with i j 2(2) show ?thesis by simp
    next
      case False with i j show ?thesis by simp
    qed
  qed
qed

lemma exec_keeps_paid:
  assumes g: "get_row inv_id (invoices s) k = Some i" and st: "inv_status i = ''PAID''"
    and g': "get_row inv_id (invoices (snd (exec s x))) k = Some j"
  shows "inv_status j = ''PAID''"
proof (cases x)
  case (CreatePayment p)
  with g' have "get_row inv_id (invoices (snd (create_payment s p))) k = Some j"
    by (simp add: outcome_def)
  from create_payment_invoice [OF this] g st show ?thesis by auto
next
  case (CreateInvoice p)
  with g g' st show ?thesis
    by (auto simp: outcome_def create_invoice_def Let_def get_row_append split: if_splits)
next
  case (DeleteInvoice d)
  with g g' st show ?thesis
    by (auto simp: outcome_def delete_invoice_def get_row_filter split: option.splits if_splits)
next
  case (DeletePO d)
  with g g' st show ?thesis
    by (auto simp: outcome_def delete_po_def get_row_upd_po split: option.splits if_splits)
qed (use g g' st in \<open>auto simp: outcome_def create_department_def delete_department_def
       create_employee_def delete_employee_def create_supplier_def delete_supplier_def
       create_po_def delete_payment_def Let_def split: option.splits if_splits\<close>)

text \<open>The definitions to unfold on the other example stores and strings.\<close>

lemmas ex_po_defs = ex_po_db_def ex_emp_db_def empty_db_def ex_po_def ex_employee_def get_row_def
  department_in_use_def employee_in_use_def supplier_in_use_def
  delete_department_def delete_employee_def delete_supplier_def delete_po_def
  create_po_def create_employee_def employee_constraints_def tables_def int4_def Let_def outcome_def

lemmas list_defs = list_departments_def list_employees_def list_suppliers_def list_pos_def
  list_invoices_def list_payments_def page_def bounded_ascending_def Let_def
  ex_po_db_def ex_emp_db_def empty_db_def

lemmas iso_defs = normalize_hired_on_def strip_def is_space_def replace_Z_def isoformat_def digit_def
  number_def is_leap_def days_in_month_def date_fromisoformat_def utcoffset_fromiso_def
  datetime_fromisoformat_def Let_def

section \<open>Failed requests\<close>

text \<open>
  A request that fails leaves the rows of every table as they were, unless it fails
  with the error of the expired row, which \<^verbatim>\<open>create_payment\<close> raises after its
  commits.
\<close>

lemma exec_failure_tables:
  "fst (exec s x) = Some e \<Longrightarrow> e \<noteq> DetachedInstanceError \<Longrightarrow> tables (snd (exec s x)) = tables s"
  by (cases x)
    (auto simp: outcome_def tables_def Let_def
       create_department_def delete_department_def create_employee_def delete_employee_def
       create_supplier_def delete_supplier_def create_po_def delete_po_def
       create_invoice_def delete_invoice_def create_payment_def delete_payment_def
     split: option.splits if_splits)

lemma create_po_unresolved_supplier:
  "get_row sup_id (suppliers s) (new_po_supplier_id po) = None \<Longrightarrow>
     create_po s po = (Inl (HTTPException 400 supplier_id_invalido), s)"
  by (simp add: create_po_def)

lemma create_employee_duplicate_email:
  assumes "get_row dept_id (departments s) (new_emp_department_id ep) = Some d"
    and "e \<in> set (employees s)" and "emp_email e = new_emp_email ep"
  shows "fst (create_employee s ep) = Inl (HTTPException 400 Email_ja_existe)"
    and "tables (snd (create_employee s ep)) = tables s"
proof -
  from assms have "new_emp_email ep \<in> set (map emp_email (employees s))" by force
  with assms show "fst (create_employee s ep) = Inl (HTTPException 400 Email_ja_existe)"
    and "tables (snd (create_employee s ep)) = tables s"
    by (simp_all add: create_employee_def employee_constraints_def Let_def tables_def)
qed

text \<open>A payment on an invoice that is \<^verbatim>\<open>PAID\<close> changes no invoice.\<close>

lemma create_payment_paid_noop:
  "get_row inv_id (invoices s) (new_pay_invoice_id p) = Some i \<Longrightarrow> inv_status i = ''PAID'' \<Longrightarrow>
     invoices (snd (create_payment s p)) = invoices s"
  by (simp add: create_payment_def Let_def)

section \<open>Pages\<close>

lemma page_Inr:
  assumes "page key limit offset q = Inr rows"
  shows "bounded_ascending key limit offset rows \<and> set rows \<subseteq> set q"
proof -
  let ?l = "case limit of None \<Rightarrow> 50 | Some v \<Rightarrow> v"
  let ?off = "case offset of None \<Rightarrow> 0 | Some v \<Rightarrow> v"
  from assms have b: "1 \<le> ?l \<and> ?l \<le> 200 \<and> 0 \<le> ?off"
    and r: "rows = take (nat ?l) (drop (nat ?off) (sort_key key q))"
    by (auto simp: page_def Let_def split: if_splits)
  have "sorted (map key (sort_key key q))" by (rule sorted_sort_key)
  then have s: "sorted (map key rows)"
    unfolding r take_map [symmetric] drop_map [symmetric]
    by (intro sorted_wrt_take sorted_wrt_drop)
  have "length rows \<le> nat ?l" by (simp add: r)
  then have l: "int (length rows) \<le> ?l" using b by linarith
  have "set rows \<subseteq> set (sort_key key q)"
    unfolding r by (meson set_take_subset set_drop_subset subset_trans)
  then have "set rows \<subseteq> set q" by simp
  with b s l show ?thesis by (simp add: bounded_ascending_def Let_def)
qed


section \<open>The settlement rule\<close>

text \<open>
  C1. Whenever \<^verbatim>\<open>create_payment\<close> inserts a payment, the payment is the new last
  row of the payments, the total paid on its invoice is the sum over the stored
  payments of that invoice, the new one included (the former total plus the new
  amount), and the invoice then has status \<^verbatim>\<open>PAID\<close> if that total reaches its
  amount and it was not \<^verbatim>\<open>PAID\<close> before, and is unchanged otherwise. The handler
  returns the payment when it does not settle and ends with the error of the expired
  row when it does. In particular, in a store that satisfies its constraints, payments
  of 30000 and then 70000 on an open invoice of 100000 with nothing paid yet are both
  inserted, and the invoice is still \<^verbatim>\<open>OPEN\<close> after the first and
  \<^verbatim>\<open>PAID\<close> after the second.
\<close>

theorem create_payment_settlement:
  "(payments (snd (create_payment s payload)) \<noteq> payments s \<longrightarrow>
      (\<exists>invoice. get_row inv_id (invoices s) (new_pay_invoice_id payload) = Some invoice
         \<and> payments (snd (create_payment s payload)) = payments s @ [new_payment s payload]
         \<and> pay_invoice_id (new_payment s payload) = inv_id invoice
         \<and> pay_amount_cents (new_payment s payload) = new_pay_amount_cents payload
         \<and> total_paid (snd (create_payment s payload)) (inv_id invoice)
             = total_paid s (inv_id invoice) + new_pay_amount_cents payload
         \<and> get_row inv_id (invoices (snd (create_payment s payload))) (inv_id invoice)
             = Some (if inv_amount_cents invoice
                          \<le> total_paid (snd (create_payment s payload)) (inv_id invoice)
                        \<and> inv_status invoice \<noteq> ''PAID''
                     then invoice\<lparr>inv_status := ''PAID''\<rparr> else invoice)
         \<and> fst (create_payment s payload)
             = (if inv_amount_cents invoice
                     \<le> total_paid (snd (create_payment s payload)) (inv_id invoice)
                   \<and> inv_status invoice \<noteq> ''PAID''
                then Inl DetachedInstanceError else Inr (new_payment s payload))))
   \<and> (store_ok s \<and> get_row inv_id (invoices s) k = Some i
        \<and> inv_status i = ''OPEN'' \<and> inv_amount_cents i = 100000 \<and> total_paid s k = 0
        \<and> PaymentCreate_valid p1 \<and> new_pay_invoice_id p1 = k \<and> new_pay_amount_cents p1 = 30000
        \<and> PaymentCreate_valid p2 \<and> new_pay_invoice_id p2 = k \<and> new_pay_amount_cents p2 = 70000
        \<and> s1 = snd (create_payment s p1) \<and> s2 = snd (create_payment s1 p2) \<longrightarrow>
          fst (create_payment s p1) = Inr (new_payment s p1)
        \<and> payments s1 = payments s @ [new_payment s p1]
        \<and> total_paid s1 k = 30000
        \<and> map_option inv_status (get_row inv_id (invoices s1) k) = Some ''OPEN''
        \<and> fst (create_payment s1 p2) = Inl DetachedInstanceError
        \<and> payments s2 = payments s1 @ [new_payment s1 p2]
        \<and> total_paid s2 k = 100000
        \<and> map_option inv_status (get_row inv_id (invoices s2) k) = Some ''PAID'')"
proof (intro conjI impI)
  assume "payments (snd (create_payment s payload)) \<noteq> payments s"
  then show "\<exists>invoice. get_row inv_id (invoices s) (new_pay_invoice_id payload) = Some invoice
         \<and> payments (snd (create_payment s payload)) = payments s @ [new_payment s payload]
         \<and> pay_invoice_id (new_payment s payload) = inv_id invoice
         \<and> pay_amount_cents (new_payment s payload) = new_pay_amount_cents payload
         \<and> total_paid (snd (create_payment s payload)) (inv_id invoice)
             = total_paid s (inv_id invoice) + new_pay_amount_cents payload
         \<and> get_row inv_id (invoices (snd (create_payment s payload))) (inv_id invoice)
             = Some (if inv_amount_cents invoice
                          \<le> total_paid (snd (create_payment s payload)) (inv_id invoice)
                        \<and> inv_status invoice \<noteq> ''PAID''
                     then invoice\<lparr>inv_status := ''PAID''\<rparr> else invoice)
         \<and> fst (create_payment s payload)
             = (if inv_amount_cents invoice
                     \<le> total_paid (snd (create_payment s payload)) (inv_id invoice)
                   \<and> inv_status invoice \<noteq> ''PAID''
                then Inl DetachedInstanceError else Inr (new_payment s payload))"
    by (rule create_payment_inserted)
next
  assume a: "store_ok s \<and> get_row inv_id (invoices s) k = Some i
        \<and> inv_status i = ''OPEN'' \<and> inv_amount_cents i = 100000 \<and> total_paid s k = 0
        \<and> PaymentCreate_valid p1 \<and> new_pay_invoice_id p1 = k \<and> new_pay_amount_cents p1 = 30000
        \<and> PaymentCreate_valid p2 \<and> new_pay_invoice_id p2 = k \<and> new_pay_amount_cents p2 = 70000
        \<and> s1 = snd (create_payment s p1) \<and> s2 = snd (create_payment s1 p2)"
  then have g: "get_row inv_id (invoices s) (new_pay_invoice_id p1) = Some i" by simp
  have ik: "inv_id i = k" using a get_row_Some [of inv_id "invoices s" k i] by simp
  have r1: "payments s1 = payments s @ [new_payment s p1]"
    using create_payment_recorded [OF _ g] a by (simp add: int4_def)
  then have "payments (snd (create_payment s p1)) \<noteq> payments s" using a by simp
  from create_payment_inserted [OF this] g ik a
  have f1: "fst (create_payment s p1) = Inr (new_payment s p1)"
    and t1: "total_paid s1 k = 30000"
    and g1: "get_row inv_id (invoices s1) k = Some i"
    by auto
  have ok1: "store_ok s1"
    using store_ok_create_payment [of s p1] a by simp
  have g1': "get_row inv_id (invoices s1) (new_pay_invoice_id p2) = Some i"
    using g1 a by simp
  have r2: "payments s2 = payments s1 @ [new_payment s1 p2]"
    using create_payment_recorded [OF ok1 g1'] a by (simp add: int4_def)
  then have "payments (snd (create_payment s1 p2)) \<noteq> payments s1" using a by simp
  from create_payment_inserted [OF this] g1' ik a t1
  have f2: "fst (create_payment s1 p2) = Inl DetachedInstanceError"
    and t2: "total_paid s2 k = 100000"
    and g2: "map_option inv_status (get_row inv_id (invoices s2) k) = Some ''PAID''"
    by auto
  from f1 show "fst (create_payment s p1) = Inr (new_payment s p1)" .
  from r1 show "payments s1 = payments s @ [new_payment s p1]" .
  from t1 show "total_paid s1 k = 30000" .
  from g1 a show "map_option inv_status (get_row inv_id (invoices s1) k) = Some ''OPEN''" by simp
  from f2 show "fst (create_payment s1 p2) = Inl DetachedInstanceError" .
  from r2 show "payments s2 = payments s1 @ [new_payment s1 p2]" .
  from t2 show "total_paid s2 k = 100000" .
  from g2 show "map_option inv_status (get_row inv_id (invoices s2) k) = Some ''PAID''" .
qed

theorem create_payment_settlement_witness:
  "store_ok ex_inv_db
   \<and> map_option inv_status (get_row inv_id (invoices ex_inv_db) 1) = Some ''OPEN''
   \<and> map_option inv_amount_cents (get_row inv_id (invoices ex_inv_db) 1) = Some 100000
   \<and> total_paid ex_inv_db 1 = 0
   \<and> PaymentCreate_valid (ex_payment 30000) \<and> PaymentCreate_valid (ex_payment 70000)
   \<and> fst (create_payment ex_inv_db (ex_payment 30000))
       = Inr \<lparr>pay_id = 1, pay_invoice_id = 1, pay_paid_on = Date 2026 2 6,
              pay_amount_cents = 30000, pay_method = ''PIX'', pay_reference = None\<rparr>
   \<and> map pay_amount_cents (payments (snd (create_payment ex_inv_db (ex_payment 30000)))) = [30000]
   \<and> map_option inv_status
        (get_row inv_id (invoices (snd (create_payment ex_inv_db (ex_payment 30000)))) 1) = Some ''OPEN''
   \<and> total_paid (snd (create_payment ex_inv_db (ex_payment 30000))) 1 = 30000
   \<and> fst (create_payment (snd (create_payment ex_inv_db (ex_payment 30000))) (ex_payment 70000))
       = Inl DetachedInstanceError
   \<and> map pay_amount_cents (payments (snd (create_payment (snd (create_payment ex_inv_db
           (ex_payment 30000))) (ex_payment 70000)))) = [30000, 70000]
   \<and> map_option inv_status
        (get_row inv_id (invoices (snd (create_payment (snd (create_payment ex_inv_db (ex_payment 30000)))
           (ex_payment 70000)))) 1) = Some ''PAID''"
  using create_payment_settlement [of ex_inv_db "ex_payment 30000" 1 "hd (invoices ex_inv_db)"
      "ex_payment 30000" "ex_payment 70000"
      "snd (create_payment ex_inv_db (ex_payment 30000))"
      "snd (create_payment (snd (create_payment ex_inv_db (ex_payment 30000))) (ex_payment 70000))"]
    create_payment_settlement [of "snd (create_payment ex_inv_db (ex_payment 30000))" "ex_payment 70000"
      1 "hd (invoices ex_inv_db)" "ex_payment 30000" "ex_payment 70000"
      "snd (create_payment ex_inv_db (ex_payment 30000))"
      "snd (create_payment (snd (create_payment ex_inv_db (ex_payment 30000))) (ex_payment 70000))"]
  by (simp add: ex_defs)


text \<open>
  C2. The payment of 150000 on the open invoice of 100000 of the example store is
  stored and the invoice becomes \<^verbatim>\<open>PAID\<close>, but the request ends with the error of
  the expired row instead of the payment: the overpayment that settles is answered as
  a failure. The handler returns the payment where it does not settle, as for 30000 on
  the same store.
\<close>

theorem overpayment_answers_error:
  "fst (create_payment ex_inv_db (ex_payment 150000)) = Inl DetachedInstanceError
   \<and> payments (snd (create_payment ex_inv_db (ex_payment 150000)))
       = [\<lparr>pay_id = 1, pay_invoice_id = 1, pay_paid_on = Date 2026 2 6,
            pay_amount_cents = 150000, pay_method = ''PIX'', pay_reference = None\<rparr>]
   \<and> map inv_status (invoices (snd (create_payment ex_inv_db (ex_payment 150000)))) = [''PAID'']
   \<and> fst (create_payment ex_inv_db (ex_payment 30000))
       = Inr \<lparr>pay_id = 1, pay_invoice_id = 1, pay_paid_on = Date 2026 2 6,
              pay_amount_cents = 30000, pay_method = ''PIX'', pay_reference = None\<rparr>"
  by (simp add: ex_defs)


section \<open>The settlement invariant over sequences of requests\<close>

text \<open>
  C3, as amended. The settlement invariant (every invoice with status \<^verbatim>\<open>PAID\<close> has
  payments summing to at least its amount) holds after every sequence of requests that
  deletes no payment and creates no invoice with the given status \<^verbatim>\<open>PAID\<close>, from
  any store that satisfies its constraints and the invariant, the empty store among
  them. As stated, for every sequence of requests, it fails: an invoice created as
  \<^verbatim>\<open>PAID\<close> has no payment, and an invoice stays \<^verbatim>\<open>PAID\<close> when its payment
  is deleted.
\<close>

theorem paid_invariant_kept:
  "store_ok s \<and> paid_invariant s \<and> (\<forall>x \<in> set xs. keeps_settlement x) \<longrightarrow> paid_invariant (run s xs)"
proof (induction xs arbitrary: s)
  case Nil show ?case by simp
next
  case (Cons x xs)
  show ?case
  proof
    assume a: "store_ok s \<and> paid_invariant s \<and> (\<forall>y \<in> set (x # xs). keeps_settlement y)"
    then have "store_ok (snd (exec s x))" "paid_invariant (snd (exec s x))"
      by (simp_all add: store_ok_exec paid_invariant_exec)
    with a Cons.IH [of "snd (exec s x)"] show "paid_invariant (run s (x # xs))" by simp
  qed
qed


theorem paid_invariant_counterexample:
  "\<not> paid_invariant (run empty_db [CreateSupplier ex_supplier, CreateInvoice (ex_invoice ''PAID'')])
   \<and> \<not> paid_invariant (run empty_db [CreateSupplier ex_supplier, CreateInvoice (ex_invoice ''OPEN''),
          CreatePayment (ex_payment 100000), DeletePayment 1])"
  by (simp add: paid_invariant_def run_defs ex_defs)

theorem paid_invariant_kept_witness:
  "store_ok empty_db \<and> paid_invariant empty_db
   \<and> keeps_settlement (CreateSupplier ex_supplier) \<and> keeps_settlement (CreateInvoice (ex_invoice ''OPEN''))
   \<and> keeps_settlement (CreatePayment (ex_payment 30000)) \<and> keeps_settlement (CreatePayment (ex_payment 70000))
   \<and> map inv_status (invoices (run empty_db [CreateSupplier ex_supplier, CreateInvoice (ex_invoice ''OPEN''),
          CreatePayment (ex_payment 30000), CreatePayment (ex_payment 70000)])) = [''PAID'']
   \<and> total_paid (run empty_db [CreateSupplier ex_supplier, CreateInvoice (ex_invoice ''OPEN''),
          CreatePayment (ex_payment 30000), CreatePayment (ex_payment 70000)]) 1 = 100000
   \<and> paid_invariant (run empty_db [CreateSupplier ex_supplier, CreateInvoice (ex_invoice ''OPEN''),
          CreatePayment (ex_payment 30000), CreatePayment (ex_payment 70000)])"
  using paid_invariant_kept [of empty_db "[CreateSupplier ex_supplier, CreateInvoice (ex_invoice ''OPEN''),
          CreatePayment (ex_payment 30000), CreatePayment (ex_payment 70000)]"]
  by (simp add: paid_invariant_def run_defs ex_defs)


text \<open>
  C4, as amended. No request changes the status of a stored invoice from \<^verbatim>\<open>PAID\<close>
  to anything else; recording a payment leaves each invoice as it was or changes its
  status, which was not \<^verbatim>\<open>PAID\<close>, to \<^verbatim>\<open>PAID\<close> and nothing else; and the
  system does delete payments: \<^verbatim>\<open>delete_payment\<close> removes a stored payment and
  leaves every invoice untouched. As stated the claim fails: a payment is deleted, and
  a \<^verbatim>\<open>CANCELLED\<close> invoice (not only an \<^verbatim>\<open>OPEN\<close> one) becomes \<^verbatim>\<open>PAID\<close>
  when paid in full.
\<close>

theorem settlement_only_sets_paid:
  "(get_row inv_id (invoices s) k = Some i \<and> inv_status i = ''PAID''
      \<and> get_row inv_id (invoices (snd (exec s x))) k = Some j \<longrightarrow> inv_status j = ''PAID'')
   \<and> (get_row inv_id (invoices (snd (create_payment s p))) k = Some j \<longrightarrow>
        (\<exists>i. get_row inv_id (invoices s) k = Some i
           \<and> (j = i \<or> (inv_status i \<noteq> ''PAID'' \<and> j = i\<lparr>inv_status := ''PAID''\<rparr>))))
   \<and> (get_row pay_id (payments s) n = Some obj \<longrightarrow>
        delete_payment s n = (Inr (), s\<lparr>payments := filter (\<lambda>r. pay_id r \<noteq> n) (payments s)\<rparr>))
   \<and> invoices (snd (delete_payment s n)) = invoices s"
proof (intro conjI impI)
  assume "get_row inv_id (invoices s) k = Some i \<and> inv_status i = ''PAID''
      \<and> get_row inv_id (invoices (snd (exec s x))) k = Some j"
  then show "inv_status j = ''PAID''" using exec_keeps_paid by blast
next
  assume "get_row inv_id (invoices (snd (create_payment s p))) k = Some j"
  then show "\<exists>i. get_row inv_id (invoices s) k = Some i
           \<and> (j = i \<or> (inv_status i \<noteq> ''PAID'' \<and> j = i\<lparr>inv_status := ''PAID''\<rparr>))"
    by (rule create_payment_invoice)
next
  assume g: "get_row pay_id (payments s) n = Some obj"
  then have "pay_id obj = n" using get_row_Some by fastforce
  with g show "delete_payment s n = (Inr (), s\<lparr>payments := filter (\<lambda>r. pay_id r \<noteq> n) (payments s)\<rparr>)"
    by (simp add: delete_payment_def)
next
  show "invoices (snd (delete_payment s n)) = invoices s"
    by (simp add: delete_payment_def split: option.splits)
qed

theorem settlement_counterexample:
  "map pay_id (payments ex_paid_db) = [1]
   \<and> delete_payment ex_paid_db 1 = (Inr (), ex_paid_db\<lparr>payments := []\<rparr>)
   \<and> map inv_status (invoices ex_cancelled_db) = [''CANCELLED'']
   \<and> map inv_status (invoices (snd (create_payment ex_cancelled_db (ex_payment 100000)))) = [''PAID'']"
  by (simp add: ex_paid_db_def ex_cancelled_db_def run_defs ex_defs)

theorem settlement_only_sets_paid_witness:
  "map_option inv_status (get_row inv_id (invoices ex_paid_db) 1) = Some ''PAID''
   \<and> map_option inv_status (get_row inv_id (invoices (snd (exec ex_paid_db (DeletePayment 1)))) 1) = Some ''PAID''
   \<and> map_option inv_status (get_row inv_id (invoices ex_inv_db) 1) = Some ''OPEN''
   \<and> map_option inv_status (get_row inv_id (invoices (snd (create_payment ex_inv_db (ex_payment 100000)))) 1)
        = Some ''PAID''
   \<and> map_option pay_amount_cents (get_row pay_id (payments ex_paid_db) 1) = Some 100000
   \<and> fst (delete_payment ex_paid_db 1) = Inr ()
   \<and> payments (snd (delete_payment ex_paid_db 1)) = []"
  using settlement_only_sets_paid [of ex_paid_db 1 "hd (invoices ex_paid_db)" "DeletePayment 1"
      "hd (invoices ex_paid_db)" "ex_payment 100000" 1 "hd (payments ex_paid_db)"]
    settlement_only_sets_paid [of ex_inv_db 1 "hd (invoices ex_inv_db)" "DeletePayment 1"
      "(hd (invoices ex_inv_db))\<lparr>inv_status := ''PAID''\<rparr>" "ex_payment 100000" 1 "hd (payments ex_paid_db)"]
  by (simp add: ex_paid_db_def run_defs ex_defs)


section \<open>Deleting referenced records\<close>

text \<open>
  C5, as amended. Deleting a department that an employee or a purchase order points to,
  an employee that a purchase order points to, or a supplier that a purchase order or an
  invoice points to fails, and the store is left as it was, the record included. The
  failure is the store's own exception, which the handler does not catch: it reaches
  the caller as the framework's generic failure, not as an error the handler raises.
  As stated (a distinct conflict error) the claim fails: deleting the first department
  of the example store, which has an employee, ends with the uncaught exception.
\<close>

theorem delete_in_use_fails:
  "(get_row dept_id (departments s) k = Some d
      \<and> ((\<exists>e \<in> set (employees s). emp_department_id e = k)
         \<or> (\<exists>p \<in> set (purchase_orders s). po_department_id p = k)) \<longrightarrow>
      delete_department s k = (Inl DBAPIError, s))
   \<and> (get_row emp_id (employees s) k = Some e
      \<and> (\<exists>p \<in> set (purchase_orders s). po_requested_by p = k) \<longrightarrow>
      delete_employee s k = (Inl DBAPIError, s))
   \<and> (get_row sup_id (suppliers s) k = Some u
      \<and> ((\<exists>p \<in> set (purchase_orders s). po_supplier_id p = k)
         \<or> (\<exists>i \<in> set (invoices s). inv_supplier_id i = k)) \<longrightarrow>
      delete_supplier s k = (Inl DBAPIError, s))"
proof (intro conjI impI)
  assume a: "get_row dept_id (departments s) k = Some d
      \<and> ((\<exists>e \<in> set (employees s). emp_department_id e = k)
         \<or> (\<exists>p \<in> set (purchase_orders s). po_department_id p = k))"
  then have "dept_id d = k" using get_row_Some by fastforce
  with a show "delete_department s k = (Inl DBAPIError, s)"
    by (simp add: delete_department_def department_in_use_def)
next
  assume a: "get_row emp_id (employees s) k = Some e
      \<and> (\<exists>p \<in> set (purchase_orders s). po_requested_by p = k)"
  then have "emp_id e = k" using get_row_Some by fastforce
  with a show "delete_employee s k = (Inl DBAPIError, s)"
    by (simp add: delete_employee_def employee_in_use_def)
next
  assume a: "get_row sup_id (suppliers s) k = Some u
      \<and> ((\<exists>p \<in> set (purchase_orders s). po_supplier_id p = k)
         \<or> (\<exists>i \<in> set (invoices s). inv_supplier_id i = k))"
  then have "sup_id u = k" using get_row_Some by fastforce
  with a show "delete_supplier s k = (Inl DBAPIError, s)"
    by (simp add: delete_supplier_def supplier_in_use_def)
qed

theorem delete_in_use_counterexample:
  "map emp_department_id (employees ex_emp_db) = [1, 2]
   \<and> delete_department ex_emp_db 1 = (Inl DBAPIError, ex_emp_db)"
  by (simp add: ex_po_defs)

theorem delete_in_use_fails_witness:
  "map_option dept_name (get_row dept_id (departments ex_po_db) 2) = Some ''Compras''
   \<and> map emp_department_id (employees ex_po_db) = [1, 2]
   \<and> delete_department ex_po_db 2 = (Inl DBAPIError, ex_po_db)
   \<and> map_option emp_full_name (get_row emp_id (employees ex_po_db) 2) = Some ''Carla Mendes''
   \<and> map po_requested_by (purchase_orders ex_po_db) = [2]
   \<and> delete_employee ex_po_db 2 = (Inl DBAPIError, ex_po_db)
   \<and> map_option sup_name (get_row sup_id (suppliers ex_po_db) 1) = Some ''Papelaria Norte''
   \<and> map inv_supplier_id (invoices ex_po_db) = [1]
   \<and> delete_supplier ex_po_db 1 = (Inl DBAPIError, ex_po_db)"
  using delete_in_use_fails [of ex_po_db 2 "departments ex_po_db ! 1" "employees ex_po_db ! 1"
      "hd (suppliers ex_po_db)"]
    delete_in_use_fails [of ex_po_db 1 "hd (departments ex_po_db)" "hd (employees ex_po_db)"
      "hd (suppliers ex_po_db)"]
  by (simp add: ex_po_defs)


text \<open>
  C6. Deleting a purchase order that an invoice points to succeeds: the order is gone,
  the invoice is still stored with \<^verbatim>\<open>po_id\<close> absent and every other field as it
  was, the invoices are the former ones with that reference cleared, and no payment is
  removed.
\<close>

theorem delete_po_detaches:
  "get_row po_id (purchase_orders s) k = Some obj \<and> i \<in> set (invoices s) \<and> inv_po_id i = Some k \<longrightarrow>
     (\<exists>s'. delete_po s k = (Inr (), s')
        \<and> get_row po_id (purchase_orders s') k = None
        \<and> i\<lparr>inv_po_id := None\<rparr> \<in> set (invoices s')
        \<and> invoices s' = map (\<lambda>j. if inv_po_id j = Some k then j\<lparr>inv_po_id := None\<rparr> else j) (invoices s)
        \<and> payments s' = payments s)"
proof
  assume a: "get_row po_id (purchase_orders s) k = Some obj \<and> i \<in> set (invoices s) \<and> inv_po_id i = Some k"
  then have k: "po_id obj = k" using get_row_Some by fastforce
  have "i\<lparr>inv_po_id := None\<rparr> \<in> set (map (\<lambda>j. if inv_po_id j = Some k then j\<lparr>inv_po_id := None\<rparr> else j) (invoices s))"
    using a by force
  with a k show "\<exists>s'. delete_po s k = (Inr (), s')
        \<and> get_row po_id (purchase_orders s') k = None
        \<and> i\<lparr>inv_po_id := None\<rparr> \<in> set (invoices s')
        \<and> invoices s' = map (\<lambda>j. if inv_po_id j = Some k then j\<lparr>inv_po_id := None\<rparr> else j) (invoices s)
        \<and> payments s' = payments s"
    by (simp add: delete_po_def get_row_filter)
qed

theorem delete_po_detaches_witness:
  "map_option po_status (get_row po_id (purchase_orders ex_po_db) 1) = Some ''APPROVED''
   \<and> map inv_po_id (invoices ex_po_db) = [Some 1]
   \<and> fst (delete_po ex_po_db 1) = Inr ()
   \<and> purchase_orders (snd (delete_po ex_po_db 1)) = []
   \<and> invoices (snd (delete_po ex_po_db 1)) = [(hd (invoices ex_po_db))\<lparr>inv_po_id := None\<rparr>]"
  using delete_po_detaches [of ex_po_db 1 "hd (purchase_orders ex_po_db)" "hd (invoices ex_po_db)"]
  by (simp add: ex_po_defs)


section \<open>Failed inserts\<close>

text \<open>
  C7. On the example store with 30000 paid on the open invoice of 100000, the payment
  of 70000 ends with an error, and yet its row is stored and the invoice has become
  \<^verbatim>\<open>PAID\<close>: a failed insert that does not leave the store as it was. (The
  failures of \<^verbatim>\<open>create_po\<close> on an unknown supplier and of
  \<^verbatim>\<open>create_employee\<close> on a used email, and every failure but this one, leave
  the tables unchanged: \<open>create_po_unresolved_supplier\<close>,
  \<open>create_employee_duplicate_email\<close>, \<open>exec_failure_tables\<close>.)
\<close>

theorem settling_payment_fails_after_writing:
  "map pay_amount_cents (payments (snd (create_payment ex_inv_db (ex_payment 30000)))) = [30000]
   \<and> map inv_status (invoices (snd (create_payment ex_inv_db (ex_payment 30000)))) = [''OPEN'']
   \<and> fst (create_payment (snd (create_payment ex_inv_db (ex_payment 30000))) (ex_payment 70000))
       = Inl DetachedInstanceError
   \<and> map pay_amount_cents (payments (snd (create_payment (snd (create_payment ex_inv_db
           (ex_payment 30000))) (ex_payment 70000)))) = [30000, 70000]
   \<and> map inv_status (invoices (snd (create_payment (snd (create_payment ex_inv_db
           (ex_payment 30000))) (ex_payment 70000)))) = [''PAID'']"
  by (simp add: ex_defs)


section \<open>Listing in pages\<close>

text \<open>
  C8. Whatever the filters, a list operation that returns rows returns at most
  \<^verbatim>\<open>limit\<close> of them, where the limit is between 1 and 200 and is 50 when absent and
  the offset is at least 0 and is 0 when absent, in ascending order of their
  identifiers, all of them rows of the table. The result is a function of the store and
  the parameters, so a repeated call with the same filters on the same store returns
  the same sequence.
\<close>

theorem list_bounded_ascending:
  "(list_departments s limit offset = Inr ds \<longrightarrow>
      bounded_ascending dept_id limit offset ds \<and> set ds \<subseteq> set (departments s))
   \<and> (list_employees s limit offset department_id active = Inr es \<longrightarrow>
      bounded_ascending emp_id limit offset es \<and> set es \<subseteq> set (employees s))
   \<and> (list_suppliers s limit offset = Inr us \<longrightarrow>
      bounded_ascending sup_id limit offset us \<and> set us \<subseteq> set (suppliers s))
   \<and> (list_pos s limit offset status = Inr ps \<longrightarrow>
      bounded_ascending po_id limit offset ps \<and> set ps \<subseteq> set (purchase_orders s))
   \<and> (list_invoices s limit offset status supplier_id = Inr is \<longrightarrow>
      bounded_ascending inv_id limit offset is \<and> set is \<subseteq> set (invoices s))
   \<and> (list_payments s limit offset invoice_id = Inr ys \<longrightarrow>
      bounded_ascending pay_id limit offset ys \<and> set ys \<subseteq> set (payments s))"
proof (intro conjI impI)
  assume "list_departments s limit offset = Inr ds"
  then have p: "bounded_ascending dept_id limit offset ds \<and> set ds \<subseteq> set (departments s)"
    unfolding list_departments_def by (rule page_Inr)
  from p show "bounded_ascending dept_id limit offset ds" ..
  from p show "set ds \<subseteq> set (departments s)" ..
next
  assume "list_employees s limit offset department_id active = Inr es"
  then obtain q where "page emp_id limit offset q = Inr es" and q: "set q \<subseteq> set (employees s)"
    by (auto simp: list_employees_def Let_def split: option.splits)
  from page_Inr [OF this(1)] q
  show "bounded_ascending emp_id limit offset es" and "set es \<subseteq> set (employees s)" by auto
next
  assume "list_suppliers s limit offset = Inr us"
  then have p: "bounded_ascending sup_id limit offset us \<and> set us \<subseteq> set (suppliers s)"
    unfolding list_suppliers_def by (rule page_Inr)
  from p show "bounded_ascending sup_id limit offset us" ..
  from p show "set us \<subseteq> set (suppliers s)" ..
next
  assume "list_pos s limit offset status = Inr ps"
  then obtain q where "page po_id limit offset q = Inr ps" and q: "set q \<subseteq> set (purchase_orders s)"
    by (auto simp: list_pos_def Let_def split: option.splits if_splits)
  from page_Inr [OF this(1)] q
  show "bounded_ascending po_id limit offset ps" and "set ps \<subseteq> set (purchase_orders s)" by auto
next
  assume "list_invoices s limit offset status supplier_id = Inr is"
  then obtain q where "page inv_id limit offset q = Inr is" and q: "set q \<subseteq> set (invoices s)"
    by (auto simp: list_invoices_def Let_def split: option.splits if_splits)
  from page_Inr [OF this(1)] q
  show "bounded_ascending inv_id limit offset is" and "set is \<subseteq> set (invoices s)" by auto
next
  assume "list_payments s limit offset invoice_id = Inr ys"
  then obtain q where "page pay_id limit offset q = Inr ys" and q: "set q \<subseteq> set (payments s)"
    by (auto simp: list_payments_def Let_def split: option.splits)
  from page_Inr [OF this(1)] q
  show "bounded_ascending pay_id limit offset ys" and "set ys \<subseteq> set (payments s)" by auto
qed

theorem list_bounded_ascending_witness:
  "list_departments ex_po_db (Some 1) (Some 1) = Inr [departments ex_po_db ! 1]
   \<and> list_employees ex_po_db (Some 1) (Some 1) None (Some True) = Inr [employees ex_po_db ! 1]
   \<and> list_suppliers ex_po_db (Some 1) (Some 1) = Inr []
   \<and> list_pos ex_po_db (Some 1) (Some 1) (Some ''APPROVED'') = Inr []
   \<and> list_invoices ex_po_db (Some 1) (Some 1) (Some ''APPROVED'') None = Inr []
   \<and> list_payments ex_po_db (Some 1) (Some 1) None = Inr []
   \<and> list_departments ex_po_db None None = Inr (departments ex_po_db)
   \<and> list_employees ex_po_db None None (Some 2) None = Inr [employees ex_po_db ! 1]
   \<and> list_suppliers ex_po_db None None = Inr (suppliers ex_po_db)
   \<and> list_pos ex_po_db None None (Some ''APPROVED'') = Inr (purchase_orders ex_po_db)
   \<and> list_invoices ex_po_db None None (Some ''OPEN'') (Some 1) = Inr (invoices ex_po_db)
   \<and> list_payments ex_po_db None None (Some 1) = Inr []
   \<and> list_departments ex_po_db (Some 201) None = Inl RequestValidationError
   \<and> bounded_ascending dept_id None None (departments ex_po_db)
   \<and> bounded_ascending emp_id (Some 1) (Some 1) [employees ex_po_db ! 1]"
  using list_bounded_ascending [of ex_po_db "Some 1" "Some 1" "[departments ex_po_db ! 1]"
      None "Some True" "[employees ex_po_db ! 1]" "[]" "Some ''APPROVED''" "[]" None "[]" None "[]"]
    list_bounded_ascending [of ex_po_db None None "departments ex_po_db"
      "Some 2" None "[employees ex_po_db ! 1]" "suppliers ex_po_db" "Some ''APPROVED''"
      "purchase_orders ex_po_db" "Some 1" "[]" "Some 1" "[]"]
  by (simp add: list_defs)


section \<open>Dates sent by the tools\<close>

text \<open>
  C9, as amended. The tool \<^verbatim>\<open>create_employee\<close> sends \<^verbatim>\<open>hired_on\<close> normalised,
  whatever the library's parsers are: a string that, stripped, is not empty, contains
  \<^verbatim>\<open>T\<close> and is read as a datetime is replaced by the ISO form of its calendar
  date; one without \<^verbatim>\<open>T\<close> that is read as a date is replaced by the ISO form of
  that date; an empty or unreadable one is sent as it is. No other tool normalises:
  \<^verbatim>\<open>create_invoice\<close> sends \<^verbatim>\<open>issued_on\<close> and \<^verbatim>\<open>due_on\<close> and
  \<^verbatim>\<open>create_payment\<close> sends \<^verbatim>\<open>paid_on\<close> exactly as given. As stated (every
  date field of every tool) the claim fails: an invoice date and a payment date with a
  time component are sent with it, where the same string as \<^verbatim>\<open>hired_on\<close> is cut to
  its date.
\<close>

theorem normalize_hired_on_only:
  "map_of (req_json (tool_create_employee dp tp department_id full_name email role salary_cents
              hired_on active)) ''hired_on''
      = Some (JStr (normalize_hired_on dp tp hired_on))
   \<and> (strip v \<noteq> [] \<and> CHR ''T'' \<in> set (strip v) \<and> tp (replace_Z (strip v)) = Some dt \<longrightarrow>
        normalize_hired_on dp tp v = isoformat (dt_date dt))
   \<and> (strip v \<noteq> [] \<and> CHR ''T'' \<notin> set (strip v) \<and> dp (strip v) = Some d \<longrightarrow>
        normalize_hired_on dp tp v = isoformat d)
   \<and> (strip v = []
        \<or> (CHR ''T'' \<in> set (strip v) \<and> tp (replace_Z (strip v)) = None)
        \<or> (CHR ''T'' \<notin> set (strip v) \<and> dp (strip v) = None) \<longrightarrow>
        normalize_hired_on dp tp v = v)
   \<and> map_of (req_json (tool_create_invoice supplier_id invoice_no issued_on due_on amount_cents
                status po)) ''issued_on'' = Some (JStr issued_on)
   \<and> map_of (req_json (tool_create_invoice supplier_id invoice_no issued_on due_on amount_cents
                status po)) ''due_on'' = Some (JStr due_on)
   \<and> map_of (req_json (tool_create_payment invoice_id paid_on amount method reference)) ''paid_on''
        = Some (JStr paid_on)"
  by (auto simp: tool_create_employee_def tool_create_invoice_def tool_create_payment_def
      normalize_hired_on_def Let_def)

theorem normalize_counterexample:
  "map_of (req_json (tool_create_invoice 1 ''NF-0001'' ''2026-02-01T10:30:00'' ''2026-02-20T00:00:00''
             100000 ''OPEN'' None)) ''issued_on'' = Some (JStr ''2026-02-01T10:30:00'')
   \<and> map_of (req_json (tool_create_payment 1 ''2026-02-06T09:15:00Z'' 100000 ''PIX'' None)) ''paid_on''
        = Some (JStr ''2026-02-06T09:15:00Z'')
   \<and> map_of (req_json (tool_create_employee date_fromisoformat datetime_fromisoformat
             1 ''Ana Souza'' ''ana.souza@empresa.com'' ''Analista'' 550000 ''2026-02-01T10:30:00'' True))
          ''hired_on'' = Some (JStr ''2026-02-01'')"
  by (simp add: tool_create_invoice_def tool_create_payment_def tool_create_employee_def iso_defs)

theorem normalize_hired_on_only_witness:
  "strip '' 2023-02-10T08:00:00Z  '' = ''2023-02-10T08:00:00Z''
   \<and> datetime_fromisoformat (replace_Z ''2023-02-10T08:00:00Z'')
        = Some (Datetime (Date 2023 2 10) 8 0 0 (Some 0))
   \<and> normalize_hired_on date_fromisoformat datetime_fromisoformat '' 2023-02-10T08:00:00Z  '' = ''2023-02-10''
   \<and> date_fromisoformat ''2023-02-10'' = Some (Date 2023 2 10)
   \<and> normalize_hired_on date_fromisoformat datetime_fromisoformat ''2023-02-10'' = ''2023-02-10''
   \<and> date_fromisoformat ''10/02/2023'' = None
   \<and> normalize_hired_on date_fromisoformat datetime_fromisoformat ''10/02/2023'' = ''10/02/2023''
   \<and> datetime_fromisoformat (replace_Z ''2023-02-30T08:00:00'') = None
   \<and> normalize_hired_on date_fromisoformat datetime_fromisoformat ''2023-02-30T08:00:00''
        = ''2023-02-30T08:00:00''
   \<and> map_of (req_json (tool_create_employee date_fromisoformat datetime_fromisoformat
             1 ''Ana Souza'' ''ana.souza@empresa.com'' ''Analista'' 550000 '' 2023-02-10T08:00:00Z  '' True))
          ''hired_on'' = Some (JStr ''2023-02-10'')"
  using normalize_hired_on_only [of date_fromisoformat datetime_fromisoformat
      1 "''Ana Souza''" "''ana.souza@empresa.com''" "''Analista''" 550000 "'' 2023-02-10T08:00:00Z  ''" True
      "'' 2023-02-10T08:00:00Z  ''" "Datetime (Date 2023 2 10) 8 0 0 (Some 0)" "Date 2023 2 10"]
    normalize_hired_on_only [of date_fromisoformat datetime_fromisoformat
      1 "''Ana Souza''" "''ana.souza@empresa.com''" "''Analista''" 550000 "''2023-02-10''" True
      "''2023-02-10''" "Datetime (Date 2023 2 10) 8 0 0 (Some 0)" "Date 2023 2 10"]
    normalize_hired_on_only [of date_fromisoformat datetime_fromisoformat
      1 "''Ana Souza''" "''ana.souza@empresa.com''" "''Analista''" 550000 "''10/02/2023''" True
      "''10/02/2023''" "Datetime (Date 2023 2 10) 8 0 0 (Some 0)" "Date 2023 2 10"]
  by (simp add: tool_create_employee_def iso_defs)


section \<open>The department filter of the employee listing tool\<close>

text \<open>
  C10. Called with \<^verbatim>\<open>department_id = 0\<close>, the tool \<^verbatim>\<open>list_employees\<close> sends only
  \<^verbatim>\<open>limit\<close> and \<^verbatim>\<open>offset\<close>: the filter is dropped, and the answer is that of the
  listing without a department filter. With any other department id the filter is
  sent, and the answer is the listing of that department.
\<close>

theorem tool_list_employees_department_zero:
  "req_params (tool_list_employees limit offset (Some 0)) = [(''limit'', limit), (''offset'', offset)]
   \<and> call_list_employees s limit offset (Some 0) = list_employees s (Some limit) (Some offset) None None
   \<and> (d \<noteq> 0 \<longrightarrow>
        req_params (tool_list_employees limit offset (Some d))
          = [(''limit'', limit), (''offset'', offset), (''department_id'', d)]
        \<and> call_list_employees s limit offset (Some d)
          = list_employees s (Some limit) (Some offset) (Some d) None)"
  by (simp add: tool_list_employees_def call_list_employees_def get_employees_def)

theorem tool_list_employees_department_zero_witness:
  "call_list_employees ex_emp_db 50 0 (Some 0) = Inr (employees ex_emp_db)
   \<and> call_list_employees ex_emp_db 50 0 (Some 2) = Inr [employees ex_emp_db ! 1]
   \<and> req_params (tool_list_employees 50 0 (Some 2))
        = [(''limit'', 50), (''offset'', 0), (''department_id'', 2)]"
  using tool_list_employees_department_zero [of 50 0 ex_emp_db 2]
  by (simp add: list_employees_def page_def ex_emp_db_def empty_db_def)


end
